theory Spec2Isabelle
  imports Main "HOL-Library.Sublist"
begin

section \<open>Strings, numbers and JSON values\<close>

text \<open>
  A JavaScript string is modelled as a \<^typ>\<open>string\<close> holding its UTF-8 bytes. A JavaScript
  number is modelled as an \<^typ>\<open>int\<close> (a result count, a number in a JSON body) or as a
  \<^typ>\<open>nat\<close> (an HTTP status code): the model covers the integral numbers; fractions and
  NaN are outside it.
\<close>

fun join :: "string \<Rightarrow> string list \<Rightarrow> string" where
  "join sep [] = []"
| "join sep [x] = x"
| "join sep (x # y # ys) = x @ sep @ join sep (y # ys)"

fun show_nat :: "nat \<Rightarrow> string" where
  "show_nat n =
     (if n < 10 then [''0123456789'' ! n]
      else show_nat (n div 10) @ [''0123456789'' ! (n mod 10)])"

declare show_nat.simps [simp del]

text \<open>
  \<^verbatim>\<open>Number.prototype.toString\<close> and the template literal \<^verbatim>\<open>${n}\<close>, on an integral number
  that a JavaScript number holds exactly and prints in full (a magnitude up to
  9007199254740991); larger numbers, which JavaScript rounds and, from 1e21, prints with
  an exponent, are outside the model.
\<close>

definition toString :: "int \<Rightarrow> string" where
  "toString n = (if n < 0 then ''-'' @ show_nat (nat (- n)) else show_nat (nat n))"

text \<open>
  A parsed JSON value, as JavaScript holds it: the properties of an object in their
  enumeration order.
\<close>

datatype json =
    JNull
  | JBool bool
  | JNum int
  | JStr string
  | JArr "json list"
  | JObj "(string \<times> json) list"

text \<open>The escapes of \<^verbatim>\<open>JSON.stringify\<close> for one character of a string.\<close>

definition hex_lower :: "nat \<Rightarrow> char" where
  "hex_lower d = ''0123456789abcdef'' ! d"

definition escape_char :: "char \<Rightarrow> string" where
  "escape_char c =
     (if c = CHR 0x22 then [CHR 0x5C, CHR 0x22]
      else if c = CHR 0x5C then [CHR 0x5C, CHR 0x5C]
      else if c = CHR 0x08 then [CHR 0x5C, CHR ''b'']
      else if c = CHR 0x0C then [CHR 0x5C, CHR ''f'']
      else if c = CHR 0x0A then [CHR 0x5C, CHR ''n'']
      else if c = CHR 0x0D then [CHR 0x5C, CHR ''r'']
      else if c = CHR 0x09 then [CHR 0x5C, CHR ''t'']
      else if (of_char c :: nat) < 32
        then [CHR 0x5C, CHR ''u'', CHR ''0'', CHR ''0'',
              hex_lower (of_char c div 16), hex_lower (of_char c mod 16)]
      else [c])"

definition quote :: "string \<Rightarrow> string" where
  "quote s = [CHR 0x22] @ concat (map escape_char s) @ [CHR 0x22]"

text \<open>\<^verbatim>\<open>JSON.stringify\<close> of a parsed JSON value (no indentation).\<close>

fun stringify :: "json \<Rightarrow> string" where
  "stringify JNull = ''null''"
| "stringify (JBool b) = (if b then ''true'' else ''false'')"
| "stringify (JNum n) = toString n"
| "stringify (JStr s) = quote s"
| "stringify (JArr xs) = ''['' @ join '','' (map stringify xs) @ '']''"
| "stringify (JObj kvs) =
     ''{'' @ join '','' (map (\<lambda>kv. quote (fst kv) @ '':'' @ stringify (snd kv)) kvs) @ ''}''"

text \<open>JavaScript truthiness of a parsed JSON value, and of an optional string or number.\<close>

fun truthy_json :: "json \<Rightarrow> bool" where
  "truthy_json JNull = False"
| "truthy_json (JBool b) = b"
| "truthy_json (JNum n) = (n \<noteq> 0)"
| "truthy_json (JStr s) = (s \<noteq> [])"
| "truthy_json (JArr xs) = True"
| "truthy_json (JObj kvs) = True"

text \<open>
  An optional property of type string: \<open>None\<close> is \<^verbatim>\<open>undefined\<close>. \<^verbatim>\<open>a || d\<close> is \<open>a\<close> when
  \<open>a\<close> is truthy (present and not the empty string), and \<open>d\<close> otherwise.
\<close>

definition truthy :: "string option \<Rightarrow> bool" where
  "truthy a = (case a of None \<Rightarrow> False | Some s \<Rightarrow> s \<noteq> [])"

definition or_else :: "string option \<Rightarrow> string \<Rightarrow> string" where
  "or_else a d = (case a of None \<Rightarrow> d | Some s \<Rightarrow> if s \<noteq> [] then s else d)"

section \<open>URLSearchParams\<close>

text \<open>
  The list of name-value pairs of a \<^verbatim>\<open>URLSearchParams\<close>, with \<^verbatim>\<open>append\<close>, \<^verbatim>\<open>set\<close> and
  \<^verbatim>\<open>toString\<close> (the application/x-www-form-urlencoded serialiser: a space becomes \<open>+\<close>,
  the bytes \<open>* - . _\<close>, digits and letters stand for themselves, every other byte is
  percent-encoded in upper-case hexadecimal).
\<close>

type_synonym URLSearchParams = "(string \<times> string) list"

definition append_param :: "string \<Rightarrow> string \<Rightarrow> URLSearchParams \<Rightarrow> URLSearchParams" where
  "append_param name v ps = ps @ [(name, v)]"

fun set_param :: "string \<Rightarrow> string \<Rightarrow> URLSearchParams \<Rightarrow> URLSearchParams" where
  "set_param name v [] = [(name, v)]"
| "set_param name v (p # ps) =
     (if fst p = name then (name, v) # filter (\<lambda>p'. fst p' \<noteq> name) ps
      else p # set_param name v ps)"

definition getAll :: "string \<Rightarrow> URLSearchParams \<Rightarrow> string list" where
  "getAll name ps = map snd (filter (\<lambda>p. fst p = name) ps)"

definition hex_upper :: "nat \<Rightarrow> char" where
  "hex_upper d = ''0123456789ABCDEF'' ! d"

definition unreserved :: "char \<Rightarrow> bool" where
  "unreserved c =
     (c \<in> set ''*-._0123456789ABCDEFGHIJKLMNOPQRSTUVWXYZabcdefghijklmnopqrstuvwxyz'')"

definition encode_byte :: "char \<Rightarrow> string" where
  "encode_byte c =
     (if c = CHR '' '' then ''+''
      else if unreserved c then [c]
      else [CHR ''%'', hex_upper (of_char c div 16), hex_upper (of_char c mod 16)])"

definition urlencode :: "string \<Rightarrow> string" where
  "urlencode s = concat (map encode_byte s)"

definition toString_params :: "URLSearchParams \<Rightarrow> string" where
  "toString_params ps = join ''&'' (map (\<lambda>p. urlencode (fst p) @ ''='' @ urlencode (snd p)) ps)"

section \<open>Errors, requests and the network\<close>

text \<open>
  A thrown value or a rejected promise: the error's class and its message. \<open>Error\<close> is
  \<^verbatim>\<open>new Error(message)\<close>; \<open>FetchError\<close> is a rejection of \<^verbatim>\<open>fetch\<close> (a network-level failure);
  \<open>SyntaxError\<close> is a rejection of \<^verbatim>\<open>response.json()\<close>; \<open>TypeError\<close> is raised by the
  JavaScript runtime (the text of its message is the engine's, nothing depends on it);
  \<open>McpError\<close> is the protocol server's rejection of arguments that do not fit the tool's
  schema.
\<close>

datatype error =
    Error string
  | FetchError string
  | SyntaxError string
  | TypeError string
  | McpError string

fun message :: "error \<Rightarrow> string" where
  "message (Error m) = m"
| "message (FetchError m) = m"
| "message (SyntaxError m) = m"
| "message (TypeError m) = m"
| "message (McpError m) = m"

text \<open>The two arguments of \<^verbatim>\<open>fetch(url, options)\<close>.\<close>

record http_request =
  url :: string
  method_name :: string
  headers :: "(string \<times> string) list"
  body :: "string option"

text \<open>
  What the client reads of a response: \<^verbatim>\<open>status\<close>, \<^verbatim>\<open>statusText\<close>, the outcome of \<^verbatim>\<open>json()\<close>,
  which is the parsed body or a rejection (\<open>Inl\<close>, with its message), and \<^verbatim>\<open>ok\<close>, which
  \<^verbatim>\<open>fetch\<close> derives from the status: a response is \<^verbatim>\<open>ok\<close> when its status is in the range
  200 to 299.
\<close>

record http_response =
  status_code :: nat
  statusText :: string
  json_body :: "string + json"

definition ok :: "http_response \<Rightarrow> bool" where
  "ok response = (200 \<le> status_code response \<and> status_code response \<le> 299)"

text \<open>
  The remote platform is a parameter of the model: from its own state \<open>'w\<close> and a request
  it gives the outcome of \<^verbatim>\<open>fetch\<close> (a rejection or a response) and its next state. The
  network state records every request issued, in the order of issue.
\<close>

type_synonym 'w server = "'w \<Rightarrow> http_request \<Rightarrow> (error + http_response) \<times> 'w"

record 'w net =
  sent :: "http_request list"
  remote :: 'w

definition fetch ::
  "'w server \<Rightarrow> http_request \<Rightarrow> 'w net \<Rightarrow> (error + http_response) \<times> 'w net" where
  "fetch srv req n =
     (case srv (remote n) req of
        (outcome, w) \<Rightarrow> (outcome, \<lparr>sent = sent n @ [req], remote = w\<rparr>))"

section \<open>The client\<close>

record FrontClientOptions =
  token_opt :: "string option"
  baseUrl_opt :: "string option"

record process_env =
  FRONT_API_TOKEN :: "string option"
  DEFAULT_INBOX_ID :: "string option"

record FrontClient =
  token :: string
  baseUrl :: string

text \<open>The constructor (front-client.ts, lines 25 to 35).\<close>

definition new_FrontClient :: "process_env \<Rightarrow> FrontClientOptions \<Rightarrow> error + FrontClient" where
  "new_FrontClient env options =
     (let tok = or_else (token_opt options) (or_else (FRONT_API_TOKEN env) [])
      in if tok = []
         then Inl (Error
           ''Front API token not provided and not found in environment variable: FRONT_API_TOKEN'')
         else Inr \<lparr>token = tok,
                   baseUrl = or_else (baseUrl_opt options) ''https://api2.frontapp.com''\<rparr>)"

text \<open>
  The request that \<^verbatim>\<open>request(method, path, data)\<close> builds (lines 51 to 65), and the
  exchange (lines 67 to 78).
\<close>

definition build_request :: "FrontClient \<Rightarrow> string \<Rightarrow> string \<Rightarrow> json option \<Rightarrow> http_request" where
  "build_request c meth path data =
     (let options = \<lparr>url = baseUrl c @ path,
                      method_name = meth,
                      headers = [(''Authorization'', ''Bearer '' @ token c),
                                 (''Content-Type'', ''application/json''),
                                 (''Accept'', ''application/json'')],
                      body = None\<rparr>
      in case data of
           None \<Rightarrow> options
         | Some d \<Rightarrow>
             if truthy_json d \<and> (meth = ''POST'' \<or> meth = ''PUT'' \<or> meth = ''PATCH'')
             then options\<lparr>body := Some (stringify d)\<rparr>
             else options)"

definition failure_message :: "http_response \<Rightarrow> string" where
  "failure_message response =
     (let errorBody = (case json_body response of Inl m \<Rightarrow> JObj [] | Inr j \<Rightarrow> j)
      in ''Front API request failed: '' @ show_nat (status_code response) @ '' '' @
         statusText response @ '' - '' @ stringify errorBody)"

definition request ::
  "'w server \<Rightarrow> FrontClient \<Rightarrow> string \<Rightarrow> string \<Rightarrow> json option \<Rightarrow> 'w net \<Rightarrow>
     (error + json) \<times> 'w net" where
  "request srv c meth path data n =
     (case fetch srv (build_request c meth path data) n of
        (Inl e, n') \<Rightarrow> (Inl e, n')
      | (Inr response, n') \<Rightarrow>
          if \<not> ok response then (Inl (Error (failure_message response)), n')
          else (case json_body response of
                  Inl m \<Rightarrow> (Inl (SyntaxError m), n')
                | Inr j \<Rightarrow> (Inr j, n')))"

subsection \<open>Listing the conversations of an inbox\<close>

datatype conv_status = Open | Archived | Deleted | Spam

fun status_text :: "conv_status \<Rightarrow> string" where
  "status_text Open = ''open''"
| "status_text Archived = ''archived''"
| "status_text Deleted = ''deleted''"
| "status_text Spam = ''spam''"

text \<open>
  The filter object of \<^verbatim>\<open>listInboxConversations\<close>; \<^verbatim>\<open>listInboxMessages\<close> takes the same
  object with one more property, \<^verbatim>\<open>onlyUnresolved\<close>, and passes it on as it is. Every
  property is optional: \<open>None\<close> is an absent property.
\<close>

record conversation_params =
  q :: "string option"
  page_token :: "string option"
  limit :: "int option"
  start :: "string option"
  end_param :: "string option"
  status :: "conv_status option"

record inbox_params = conversation_params +
  onlyUnresolved :: "bool option"

text \<open>\<^verbatim>\<open>if (v) queryParams.append(name, v)\<close>, for a string and for a number.\<close>

definition append_if :: "string \<Rightarrow> string option \<Rightarrow> URLSearchParams \<Rightarrow> URLSearchParams" where
  "append_if name v ps =
     (case v of None \<Rightarrow> ps | Some s \<Rightarrow> if s \<noteq> [] then append_param name s ps else ps)"

definition append_if_number :: "string \<Rightarrow> int option \<Rightarrow> URLSearchParams \<Rightarrow> URLSearchParams" where
  "append_if_number name v ps =
     (case v of None \<Rightarrow> ps | Some k \<Rightarrow> if k \<noteq> 0 then append_param name (toString k) ps else ps)"

text \<open>The search fragment \<^verbatim>\<open>status:"<status>"\<close> (line 109).\<close>

definition statusQuery :: "conv_status \<Rightarrow> string" where
  "statusQuery s = ''status:'' @ [CHR 0x22] @ status_text s @ [CHR 0x22]"

text \<open>The query parameters composed by lines 98 to 116.\<close>

definition queryParams :: "'a conversation_params_scheme \<Rightarrow> URLSearchParams" where
  "queryParams params =
     (let ps = append_if ''q'' (q params) [];
          ps = append_if ''page_token'' (page_token params) ps;
          ps = append_if_number ''limit'' (limit params) ps;
          ps = append_if ''start'' (start params) ps;
          ps = append_if ''end'' (end_param params) ps
      in case status params of
           None \<Rightarrow> ps
         | Some s \<Rightarrow>
             (case q params of
                None \<Rightarrow> append_param ''q'' (statusQuery s) ps
              | Some t \<Rightarrow>
                  if t \<noteq> [] then set_param ''q'' (t @ '' AND '' @ statusQuery s) ps
                  else append_param ''q'' (statusQuery s) ps))"

text \<open>The path of lines 118 and 119.\<close>

definition conversations_path :: "string \<Rightarrow> 'a conversation_params_scheme \<Rightarrow> string" where
  "conversations_path inboxId params =
     (let queryString = toString_params (queryParams params)
      in ''/inboxes/'' @ inboxId @ ''/conversations'' @
         (if queryString \<noteq> [] then ''?'' @ queryString else []))"

definition listInboxConversations ::
  "'w server \<Rightarrow> FrontClient \<Rightarrow> string \<Rightarrow> 'a conversation_params_scheme \<Rightarrow> 'w net \<Rightarrow>
     (error + json) \<times> 'w net" where
  "listInboxConversations srv c inboxId params n =
     request srv c ''GET'' (conversations_path inboxId params) None n"

subsection \<open>Listing the messages of a conversation\<close>

definition listConversationMessages ::
  "'w server \<Rightarrow> FrontClient \<Rightarrow> string \<Rightarrow> 'w net \<Rightarrow> (error + json) \<times> 'w net" where
  "listConversationMessages srv c conversationId n =
     request srv c ''GET'' (''/conversations/'' @ conversationId @ ''/messages'') None n"

subsection \<open>Listing the messages of an inbox\<close>

text \<open>
  The response bodies are parsed JSON that the TypeScript code reads at an asserted type.
  The reads are modelled as JavaScript performs them. The property read \<^verbatim>\<open>v.name\<close>, for a
  name that is no built-in property of strings and arrays (the client reads \<^verbatim>\<open>_results\<close>
  and \<^verbatim>\<open>id\<close>): a TypeError on \<^verbatim>\<open>null\<close>, and \<^verbatim>\<open>undefined\<close> (\<open>None\<close>) where the value has no
  such property.
\<close>

definition get_property :: "string \<Rightarrow> json \<Rightarrow> error + json option" where
  "get_property name v =
     (case v of
        JNull \<Rightarrow>
          Inl (TypeError (''Cannot read properties of null (reading '' @ [CHR 0x27] @ name @
                          [CHR 0x27] @ '')''))
      | JObj kvs \<Rightarrow> Inr (map_of kvs name)
      | _ \<Rightarrow> Inr None)"

text \<open>The string that a template literal \<^verbatim>\<open>${v}\<close> inserts for a value.\<close>

fun template :: "json \<Rightarrow> string" where
  "template JNull = ''null''"
| "template (JBool b) = (if b then ''true'' else ''false'')"
| "template (JNum k) = toString k"
| "template (JStr s) = s"
| "template (JArr xs) = join '','' (map (\<lambda>x. if x = JNull then [] else template x) xs)"
| "template (JObj kvs) = ''[object Object]''"

definition template_opt :: "json option \<Rightarrow> string" where
  "template_opt v = (case v of None \<Rightarrow> ''undefined'' | Some j \<Rightarrow> template j)"

text \<open>
  \<^verbatim>\<open>conversationsResponse._results\<close> as the receiver of \<^verbatim>\<open>.map\<close> (line 187): the elements of
  the array, a TypeError when it is not an array.
\<close>

definition results_array :: "json \<Rightarrow> error + json list" where
  "results_array response =
     (case get_property ''_results'' response of
        Inl e \<Rightarrow> Inl e
      | Inr (Some (JArr xs)) \<Rightarrow> Inr xs
      | Inr None \<Rightarrow>
          Inl (TypeError (''Cannot read properties of undefined (reading '' @ [CHR 0x27] @
                          ''map'' @ [CHR 0x27] @ '')''))
      | Inr (Some JNull) \<Rightarrow>
          Inl (TypeError (''Cannot read properties of null (reading '' @ [CHR 0x27] @
                          ''map'' @ [CHR 0x27] @ '')''))
      | Inr _ \<Rightarrow> Inl (TypeError ''conversationsResponse._results.map is not a function''))"

text \<open>
  The requests of the two listings, as \<^verbatim>\<open>request\<close> builds them: the one for the
  conversations of an inbox under a filter, and the one for the messages of a conversation
  (a parsed JSON value, whose \<^verbatim>\<open>id\<close> is inserted in the path).
\<close>

definition conversations_request ::
  "FrontClient \<Rightarrow> string \<Rightarrow> 'a conversation_params_scheme \<Rightarrow> http_request" where
  "conversations_request c inboxId params =
     build_request c ''GET'' (conversations_path inboxId params) None"

definition messages_request :: "FrontClient \<Rightarrow> json \<Rightarrow> http_request" where
  "messages_request c conversation =
     build_request c ''GET''
       (''/conversations/'' @
          template_opt (case get_property ''id'' conversation of Inl e \<Rightarrow> None | Inr i \<Rightarrow> i) @
        ''/messages'') None"

text \<open>
  Lines 187 to 189: \<^verbatim>\<open>map\<close> calls \<^verbatim>\<open>listConversationMessages(conversation.id)\<close> for each
  conversation in turn; each call issues its request at once and gives a promise, whose
  outcome is recorded here. A conversation that is \<^verbatim>\<open>null\<close> stops the \<^verbatim>\<open>map\<close> with a
  TypeError, after the requests of the conversations before it.
\<close>

fun messagesPromises ::
  "'w server \<Rightarrow> FrontClient \<Rightarrow> json list \<Rightarrow> 'w net \<Rightarrow> (error + (error + json) list) \<times> 'w net" where
  "messagesPromises srv c [] n = (Inr [], n)"
| "messagesPromises srv c (conversation # rest) n =
     (case get_property ''id'' conversation of
        Inl e \<Rightarrow> (Inl e, n)
      | Inr i \<Rightarrow>
          (case listConversationMessages srv c (template_opt i) n of
             (p, n1) \<Rightarrow>
               (case messagesPromises srv c rest n1 of
                  (Inl e, n2) \<Rightarrow> (Inl e, n2)
                | (Inr ps, n2) \<Rightarrow> (Inr (p # ps), n2))))"

text \<open>
  \<^verbatim>\<open>Promise.all\<close> over the outcomes of the promises: fulfilled with the values, in the order
  of the promises, when all are fulfilled; otherwise rejected with the error of the promise
  that is rejected first. The instant at which the promise at index \<open>i\<close> settles is
  \<open>settled i\<close>, a parameter of the model.
\<close>

fun rejections :: "nat \<Rightarrow> ('e + 'a) list \<Rightarrow> (nat \<times> 'e) list" where
  "rejections i [] = []"
| "rejections i (Inl e # ps) = (i, e) # rejections (Suc i) ps"
| "rejections i (Inr v # ps) = rejections (Suc i) ps"

fun fulfilled :: "('e + 'a) list \<Rightarrow> 'a list" where
  "fulfilled [] = []"
| "fulfilled (Inl e # ps) = fulfilled ps"
| "fulfilled (Inr v # ps) = v # fulfilled ps"

definition Promise_all :: "(nat \<Rightarrow> nat) \<Rightarrow> ('e + 'a) list \<Rightarrow> 'e + 'a list" where
  "Promise_all settled ps =
     (case sort_key (\<lambda>r. settled (fst r)) (rejections 0 ps) of
        [] \<Rightarrow> Inr (fulfilled ps)
      | r # rs \<Rightarrow> Inl (snd r))"

text \<open>
  Lines 194 to 196: \<^verbatim>\<open>flatMap(response => response._results)\<close>. An array contributes its
  elements; any other value, \<^verbatim>\<open>undefined\<close> included, contributes itself; reading the
  property of \<^verbatim>\<open>null\<close> is a TypeError.
\<close>

definition flat_results :: "json \<Rightarrow> error + json option list" where
  "flat_results response =
     (case get_property ''_results'' response of
        Inl e \<Rightarrow> Inl e
      | Inr (Some (JArr xs)) \<Rightarrow> Inr (map Some xs)
      | Inr v \<Rightarrow> Inr [v])"

fun flatMap_results :: "json list \<Rightarrow> error + json option list" where
  "flatMap_results [] = Inr []"
| "flatMap_results (response # rest) =
     (case flat_results response of
        Inl e \<Rightarrow> Inl e
      | Inr xs \<Rightarrow>
          (case flatMap_results rest of
             Inl e \<Rightarrow> Inl e
           | Inr ys \<Rightarrow> Inr (xs @ ys)))"

record inbox_messages =
  conversations :: "json list"
  messages :: "json option list"

text \<open>
  \<^verbatim>\<open>listInboxMessages\<close> (lines 163 to 202). The filter object is the caller's: the result
  carries the object as the call leaves it, next to the outcome and the network state.
\<close>

definition set_open :: "inbox_params \<Rightarrow> inbox_params" where
  "set_open params =
     (if onlyUnresolved params = Some True then params\<lparr>status := Some Open\<rparr> else params)"

definition listInboxMessages ::
  "'w server \<Rightarrow> (nat \<Rightarrow> nat) \<Rightarrow> FrontClient \<Rightarrow> string \<Rightarrow> inbox_params \<Rightarrow> 'w net \<Rightarrow>
     (error + inbox_messages) \<times> inbox_params \<times> 'w net" where
  "listInboxMessages srv settled c inboxId params0 n0 =
     (let params = set_open params0 in
      case listInboxConversations srv c inboxId params n0 of
        (Inl e, n1) \<Rightarrow> (Inl e, params, n1)
      | (Inr conversationsResponse, n1) \<Rightarrow>
          (case results_array conversationsResponse of
             Inl e \<Rightarrow> (Inl e, params, n1)
           | Inr cs \<Rightarrow>
               (case messagesPromises srv c cs n1 of
                  (Inl e, n2) \<Rightarrow> (Inl e, params, n2)
                | (Inr ps, n2) \<Rightarrow>
                    (case Promise_all settled ps of
                       Inl e \<Rightarrow> (Inl e, params, n2)
                     | Inr messagesResponses \<Rightarrow>
                         (case flatMap_results messagesResponses of
                            Inl e \<Rightarrow> (Inl e, params, n2)
                          | Inr allMessages \<Rightarrow>
                              (Inr \<lparr>conversations = cs, messages = allMessages\<rparr>,
                               params, n2))))))"

section \<open>The exposed tool\<close>

text \<open>
  The arguments of a call of the tool \<^verbatim>\<open>getConversations\<close>, as the caller sends them, and
  the tool's schema: \<^verbatim>\<open>inboxId\<close> and \<^verbatim>\<open>query\<close> optional strings, \<^verbatim>\<open>limit\<close> a number with
  \<^verbatim>\<open>min(1)\<close>, \<^verbatim>\<open>max(100)\<close> and \<^verbatim>\<open>default(10)\<close>, \<^verbatim>\<open>onlyUnresolved\<close> a boolean with
  \<^verbatim>\<open>default(false)\<close>, \<^verbatim>\<open>status\<close> an optional member of the enumeration. The protocol server
  parses the arguments against the schema and calls the handler with the parsed values
  only when they fit.
\<close>

record tool_arguments =
  inboxId_arg :: "string option"
  limit_arg :: "int option"
  query_arg :: "string option"
  onlyUnresolved_arg :: "bool option"
  status_arg :: "string option"

definition status_enum :: "string \<Rightarrow> conv_status option" where
  "status_enum s =
     (if s = ''open'' then Some Open
      else if s = ''archived'' then Some Archived
      else if s = ''deleted'' then Some Deleted
      else if s = ''spam'' then Some Spam
      else None)"

definition limit_schema :: "int option \<Rightarrow> error + int" where
  "limit_schema v =
     (let k = (case v of None \<Rightarrow> 10 | Some k \<Rightarrow> k)
      in if k < 1 then Inl (McpError ''limit: Number must be greater than or equal to 1'')
         else if 100 < k then Inl (McpError ''limit: Number must be less than or equal to 100'')
         else Inr k)"

definition status_schema :: "string option \<Rightarrow> error + conv_status option" where
  "status_schema v =
     (case v of
        None \<Rightarrow> Inr None
      | Some s \<Rightarrow>
          (case status_enum s of
             None \<Rightarrow> Inl (McpError ''status: Invalid enum value'')
           | Some st \<Rightarrow> Inr (Some st)))"

text \<open>
  The handler (lines 85 to 134 of the server module), from the parsed arguments to the
  outcome of \<^verbatim>\<open>listInboxMessages\<close>: the token and the inbox are resolved, the client is
  constructed, the filter object is filled, and a failure of the listing is thrown again
  under the prefix \<^verbatim>\<open>Front API error:\<close>. The model ends where \<^verbatim>\<open>listInboxMessages\<close> has
  returned: the handler here returns the result itself. What the source then does with a
  result (the JSON text with the count of the conversations and, for each message, its
  fields and the ISO date of \<^verbatim>\<open>created_at\<close>, a step that can itself throw on a date out of
  range) is not modelled; it comes after every request has been issued.
\<close>

definition handler ::
  "process_env \<Rightarrow> 'w server \<Rightarrow> (nat \<Rightarrow> nat) \<Rightarrow>
     string option \<Rightarrow> int \<Rightarrow> string option \<Rightarrow> bool \<Rightarrow> conv_status option \<Rightarrow> 'w net \<Rightarrow>
     (error + inbox_messages) \<times> 'w net" where
  "handler env srv settled inboxId lim query onlyUnres stat n =
     (if \<not> truthy (FRONT_API_TOKEN env)
      then (Inl (Error ''FRONT_API_TOKEN environment variable is required''), n)
      else
        let resolvedInboxId = or_else inboxId (or_else (DEFAULT_INBOX_ID env) [])
        in if resolvedInboxId = []
           then (Inl (Error
             ''inboxId parameter or DEFAULT_INBOX_ID environment variable is required''), n)
           else
             (case new_FrontClient env
                     \<lparr>token_opt = FRONT_API_TOKEN env, baseUrl_opt = None\<rparr> of
                Inl e \<Rightarrow> (Inl e, n)
              | Inr client \<Rightarrow>
                  let params = \<lparr>q = None, page_token = None, limit = Some lim, start = None,
                                 end_param = None, status = None, onlyUnresolved = None\<rparr>;
                      params = (if truthy query then params\<lparr>q := query\<rparr> else params);
                      params =
                        (if onlyUnres then params\<lparr>onlyUnresolved := Some True\<rparr>
                         else case stat of
                                None \<Rightarrow> params
                              | Some s \<Rightarrow> params\<lparr>status := Some s\<rparr>)
                  in case listInboxMessages srv settled client resolvedInboxId params n of
                       (Inl e, p, n') \<Rightarrow> (Inl (Error (''Front API error: '' @ message e)), n')
                     | (Inr result, p, n') \<Rightarrow> (Inr result, n')))"

definition getConversations ::
  "process_env \<Rightarrow> 'w server \<Rightarrow> (nat \<Rightarrow> nat) \<Rightarrow> tool_arguments \<Rightarrow> 'w net \<Rightarrow>
     (error + inbox_messages) \<times> 'w net" where
  "getConversations env srv settled args n =
     (case limit_schema (limit_arg args) of
        Inl e \<Rightarrow> (Inl e, n)
      | Inr lim \<Rightarrow>
          (case status_schema (status_arg args) of
             Inl e \<Rightarrow> (Inl e, n)
           | Inr stat \<Rightarrow>
               handler env srv settled (inboxId_arg args) lim (query_arg args)
                 (case onlyUnresolved_arg args of None \<Rightarrow> False | Some b \<Rightarrow> b) stat n))"

text \<open>
  The requests that an operation issues: those recorded between the network state before
  it and the network state after it. A request carries the client's configuration when it
  has the header \<^verbatim>\<open>Authorization: Bearer <token>\<close> and its URL starts with the base URL.
\<close>

definition issued :: "'w net \<Rightarrow> 'w net \<Rightarrow> http_request list" where
  "issued n n' = drop (length (sent n)) (sent n')"

definition carries :: "string \<Rightarrow> string \<Rightarrow> http_request \<Rightarrow> bool" where
  "carries tok base r =
     ((''Authorization'', ''Bearer '' @ tok) \<in> set (headers r) \<and> prefix base (url r))"

section \<open>A scripted remote platform\<close>

text \<open>
  A remote platform for running the client on concrete exchanges: its state is the list
  of the outcomes still to give, one for each request in the order of issue; once the list
  is exhausted, \<^verbatim>\<open>fetch\<close> is rejected.
\<close>

fun scripted :: "(error + http_response) list server" where
  "scripted [] req = (Inl (FetchError ''socket hang up''), [])"
| "scripted (outcome # rest) req = (outcome, rest)"

definition respond_ok :: "json \<Rightarrow> error + http_response" where
  "respond_ok j = Inr \<lparr>status_code = 200, statusText = ''OK'', json_body = Inr j\<rparr>"

definition page_of :: "json list \<Rightarrow> json" where
  "page_of xs =
     JObj [(''_pagination'', JObj []), (''_links'', JObj [(''self'', JStr [])]),
           (''_results'', JArr xs)]"

definition online :: "'w \<Rightarrow> 'w net" where
  "online w = \<lparr>sent = [], remote = w\<rparr>"

text \<open>
  The data of the examples: a client, an inbox of three conversations with two, no and one
  message, and the same inbox when the messages of the second conversation are not found.
\<close>

definition demo_client :: FrontClient where
  "demo_client = \<lparr>token = ''secret'', baseUrl = ''https://api2.frontapp.com''\<rparr>"

definition no_filter :: conversation_params where
  "no_filter = \<lparr>q = None, page_token = None, limit = None, start = None, end_param = None,
                 status = None\<rparr>"

definition demo_params :: inbox_params where
  "demo_params = \<lparr>q = None, page_token = None, limit = Some 2, start = None,
                   end_param = None, status = Some Spam, onlyUnresolved = Some True\<rparr>"

definition item :: "string \<Rightarrow> json" where
  "item i = JObj [(''id'', JStr i)]"

definition not_found :: http_response where
  "not_found =
     \<lparr>status_code = 404, statusText = ''Not Found'',
      json_body = Inr (JObj [(''message'', JStr ''not found'')])\<rparr>"

definition bad_gateway :: http_response where
  "bad_gateway =
     \<lparr>status_code = 502, statusText = ''Bad Gateway'',
      json_body = Inl ''Unexpected token < in JSON at position 0''\<rparr>"

definition no_content :: http_response where
  "no_content =
     \<lparr>status_code = 204, statusText = ''No Content'',
      json_body = Inl ''Unexpected end of JSON input''\<rparr>"

definition demo_env :: process_env where
  "demo_env = \<lparr>FRONT_API_TOKEN = Some ''secret'', DEFAULT_INBOX_ID = Some ''inb_1''\<rparr>"

definition no_arguments :: tool_arguments where
  "no_arguments = \<lparr>inboxId_arg = None, limit_arg = None, query_arg = None,
                    onlyUnresolved_arg = None, status_arg = None\<rparr>"

definition demo_script :: "(error + http_response) list" where
  "demo_script =
     [respond_ok (page_of [item ''c1'', item ''c2'', item ''c3'']),
      respond_ok (page_of [item ''m1'', item ''m2'']),
      respond_ok (page_of []),
      respond_ok (page_of [item ''m3''])]"

definition failing_script :: "(error + http_response) list" where
  "failing_script =
     [respond_ok (page_of [item ''c1'', item ''c2'', item ''c3'']),
      respond_ok (page_of [item ''m1'', item ''m2'']),
      Inr not_found,
      respond_ok (page_of [item ''m3''])]"

section \<open>Properties of the query parameters\<close>

lemma getAll_Nil: "getAll a [] = []"
  by (simp add: getAll_def)

lemma getAll_append_param:
  "getAll a (append_param k v ps) = getAll a ps @ (if k = a then [v] else [])"
  by (simp add: getAll_def append_param_def)

lemma getAll_append_if:
  "getAll a (append_if k v ps) =
     getAll a ps @ (if k = a \<and> truthy v then [or_else v []] else [])"
  by (simp add: append_if_def getAll_append_param truthy_def or_else_def split: option.splits)

lemma getAll_append_if_number:
  "getAll a (append_if_number k v ps) =
     getAll a ps @
     (case v of None \<Rightarrow> [] | Some i \<Rightarrow> if k = a \<and> i \<noteq> 0 then [toString i] else [])"
  by (simp add: append_if_number_def getAll_append_param split: option.splits)

lemma getAll_filter_other: "getAll a (filter (\<lambda>p. fst p \<noteq> a) ps) = []"
  by (induction ps) (auto simp: getAll_def)

lemma getAll_filter_keep:
  "a \<noteq> b \<Longrightarrow> getAll a (filter (\<lambda>p. fst p \<noteq> b) ps) = getAll a ps"
  by (induction ps) (auto simp: getAll_def)

lemma getAll_set_param_same: "getAll a (set_param a v ps) = [v]"
  by (induction ps) (auto simp: getAll_def getAll_filter_other[unfolded getAll_def])

lemma getAll_set_param_other: "a \<noteq> b \<Longrightarrow> getAll a (set_param b v ps) = getAll a ps"
proof (induction ps)
  case Nil
  then show ?case by (simp add: getAll_def)
next
  case (Cons p ps)
  then show ?case
    using getAll_filter_keep[of a b ps] by (auto simp: getAll_def)
qed

lemmas getAll_simps = getAll_Nil getAll_append_param getAll_append_if getAll_append_if_number
  getAll_set_param_same getAll_set_param_other

lemma getAll_q_queryParams:
  "getAll ''q'' (queryParams p) =
     (case status p of
        None \<Rightarrow> if truthy (q p) then [or_else (q p) []] else []
      | Some s \<Rightarrow>
          if truthy (q p) then [or_else (q p) [] @ '' AND '' @ statusQuery s]
          else [statusQuery s])"
  by (simp add: queryParams_def getAll_simps truthy_def or_else_def split: option.splits)

lemma getAll_status_queryParams: "getAll ''status'' (queryParams p) = []"
  by (simp add: queryParams_def Let_def getAll_simps split: option.splits)

lemma append_if_falsy: "append_if k (Some []) ps = append_if k None ps"
  by (simp add: append_if_def)

lemma append_if_number_falsy: "append_if_number k (Some 0) ps = append_if_number k None ps"
  by (simp add: append_if_number_def)

section \<open>Properties of the requests issued\<close>

lemma fetch_sent: "fetch srv req n = (out, n') \<Longrightarrow> sent n' = sent n @ [req]"
  by (auto simp: fetch_def split: prod.splits)

lemma request_sent:
  "request srv c meth path data n = (r, n') \<Longrightarrow>
     sent n' = sent n @ [build_request c meth path data]"
  by (auto simp: request_def split: prod.splits sum.splits if_splits dest: fetch_sent)

lemma listInboxConversations_sent:
  "listInboxConversations srv c inboxId params n = (r, n') \<Longrightarrow>
     sent n' = sent n @ [conversations_request c inboxId params]"
  by (simp add: listInboxConversations_def conversations_request_def request_sent)

lemma listConversationMessages_sent:
  "get_property ''id'' conversation = Inr i \<Longrightarrow>
   listConversationMessages srv c (template_opt i) n = (r, n') \<Longrightarrow>
     sent n' = sent n @ [messages_request c conversation]"
  by (simp add: listConversationMessages_def messages_request_def request_sent)

lemma messagesPromises_sent:
  "messagesPromises srv c cs n = (r, n') \<Longrightarrow>
     \<exists>k \<le> length cs. sent n' = sent n @ map (messages_request c) (take k cs)"
proof (induction cs arbitrary: n r n')
  case Nil
  then show ?case by simp
next
  case (Cons conversation rest)
  show ?case
  proof (cases "get_property ''id'' conversation")
    case (Inl e)
    with Cons.prems have "n' = n" by simp
    then show ?thesis by (intro exI[of _ 0]) simp
  next
    case (Inr i)
    obtain p n1 where 1: "listConversationMessages srv c (template_opt i) n = (p, n1)"
      by (cases "listConversationMessages srv c (template_opt i) n")
    obtain r2 n2 where 2: "messagesPromises srv c rest n1 = (r2, n2)"
      by (cases "messagesPromises srv c rest n1")
    from Cons.prems Inr 1 2 have n': "n' = n2" by (auto split: sum.splits)
    from listConversationMessages_sent[OF Inr 1]
    have s1: "sent n1 = sent n @ [messages_request c conversation]" .
    from Cons.IH[OF 2] obtain k where "k \<le> length rest"
      "sent n2 = sent n1 @ map (messages_request c) (take k rest)" by blast
    with s1 n' show ?thesis by (intro exI[of _ "Suc k"]) simp
  qed
qed

lemma listInboxMessages_sent:
  assumes "listInboxMessages srv settled c inboxId params n = (r, p', n')"
  shows "\<exists>cs. sent n' =
           sent n @ conversations_request c inboxId (set_open params) # map (messages_request c) cs"
proof -
  obtain r1 n1 where 1: "listInboxConversations srv c inboxId (set_open params) n = (r1, n1)"
    by (cases "listInboxConversations srv c inboxId (set_open params) n")
  from listInboxConversations_sent[OF 1]
  have s1: "sent n1 = sent n @ [conversations_request c inboxId (set_open params)]" .
  show ?thesis
  proof (cases r1)
    case (Inl e)
    with assms 1 have "n' = n1" by (simp add: listInboxMessages_def)
    with s1 show ?thesis by (intro exI[of _ "[]"]) simp
  next
    case (Inr page)
    show ?thesis
    proof (cases "results_array page")
      case (Inl e)
      with assms 1 Inr have "n' = n1" by (simp add: listInboxMessages_def)
      with s1 show ?thesis by (intro exI[of _ "[]"]) simp
    next
      case cs: (Inr cs)
      obtain r2 n2 where 2: "messagesPromises srv c cs n1 = (r2, n2)"
        by (cases "messagesPromises srv c cs n1")
      from assms 1 Inr cs 2 have "n' = n2"
        by (auto simp: listInboxMessages_def Let_def split: sum.splits)
      with messagesPromises_sent[OF 2] s1 show ?thesis by auto
    qed
  qed
qed

section \<open>Properties of the fan-out and of the join\<close>


lemma rejections_Nil_iff: "rejections k ps = [] \<longleftrightarrow> ps = map Inr (fulfilled ps)"
  by (induction k ps rule: rejections.induct) auto

lemma fulfilled_map_Inr: "fulfilled (map Inr vs) = vs"
  by (induction vs) auto

lemma Promise_all_Inr_iff: "Promise_all settled ps = Inr vs \<longleftrightarrow> ps = map Inr vs"
proof
  assume "Promise_all settled ps = Inr vs"
  then have "sort_key (\<lambda>r. settled (fst r)) (rejections 0 ps) = []" and vs: "vs = fulfilled ps"
    by (auto simp: Promise_all_def split: list.splits)
  then have "rejections 0 ps = []"
    by (metis length_sort length_0_conv)
  with vs show "ps = map Inr vs" by (simp add: rejections_Nil_iff)
next
  assume ps: "ps = map Inr vs"
  then have "ps = map Inr (fulfilled ps)" by (simp add: fulfilled_map_Inr)
  then have "rejections 0 ps = []" by (simp add: rejections_Nil_iff)
  with ps show "Promise_all settled ps = Inr vs"
    by (simp add: Promise_all_def fulfilled_map_Inr)
qed



lemma flatMap_results_Inr:
  "flatMap_results rs = Inr ms \<Longrightarrow>
     \<exists>arrays. map flat_results rs = map Inr arrays \<and> ms = concat arrays"
proof (induction rs arbitrary: ms)
  case Nil
  then show ?case by simp
next
  case (Cons response rest)
  from Cons.prems obtain xs ys where x: "flat_results response = Inr xs"
    and y: "flatMap_results rest = Inr ys" and ms: "ms = xs @ ys"
    by (auto split: sum.splits)
  from Cons.IH[OF y] obtain arrays where
    "map flat_results rest = map Inr arrays" "ys = concat arrays"
    by blast
  with x ms show ?case by (intro exI[of _ "xs # arrays"]) simp
qed

lemma messagesPromises_Inr:
  "messagesPromises srv c cs n = (Inr ps, n') \<Longrightarrow>
     sent n' = sent n @ map (messages_request c) cs \<and> length ps = length cs"
proof (induction cs arbitrary: n ps n')
  case Nil
  then show ?case by simp
next
  case (Cons conversation rest)
  from Cons.prems obtain i where Inr: "get_property ''id'' conversation = Inr i"
    by (cases "get_property ''id'' conversation") auto
  obtain p n1 where 1: "listConversationMessages srv c (template_opt i) n = (p, n1)"
    by (cases "listConversationMessages srv c (template_opt i) n")
  obtain r2 n2 where 2: "messagesPromises srv c rest n1 = (r2, n2)"
    by (cases "messagesPromises srv c rest n1")
  from Cons.prems Inr 1 2 obtain ps2 where r2: "r2 = Inr ps2" "ps = p # ps2" "n' = n2"
    by (auto split: sum.splits)
  from listConversationMessages_sent[OF Inr 1]
  have s1: "sent n1 = sent n @ [messages_request c conversation]" .
  from Cons.IH[OF 2[unfolded r2(1)]] s1 r2 show ?case by simp
qed

lemma listInboxMessages_Inr:
  assumes "listInboxMessages srv settled c inboxId params n = (Inr r, p', n')"
  shows "\<exists>page n1 bodies.
           p' = set_open params
         \<and> listInboxConversations srv c inboxId p' n = (Inr page, n1)
         \<and> results_array page = Inr (conversations r)
         \<and> messagesPromises srv c (conversations r) n1 = (Inr (map Inr bodies), n')
         \<and> flatMap_results bodies = Inr (messages r)"
proof -
  obtain r1 n1 where 1: "listInboxConversations srv c inboxId (set_open params) n = (r1, n1)"
    by (cases "listInboxConversations srv c inboxId (set_open params) n")
  from assms 1 obtain page where page: "r1 = Inr page"
    by (cases r1) (auto simp: listInboxMessages_def Let_def)
  from assms 1 page obtain cs where cs: "results_array page = Inr cs"
    by (cases "results_array page") (auto simp: listInboxMessages_def Let_def)
  obtain r2 n2 where 2: "messagesPromises srv c cs n1 = (r2, n2)"
    by (cases "messagesPromises srv c cs n1")
  from assms 1 page cs 2 obtain ps where ps: "r2 = Inr ps"
    by (cases r2) (auto simp: listInboxMessages_def Let_def)
  from assms 1 page cs 2 ps obtain bodies where b: "Promise_all settled ps = Inr bodies"
    by (cases "Promise_all settled ps") (auto simp: listInboxMessages_def Let_def)
  from assms 1 page cs 2 ps b obtain ms where ms: "flatMap_results bodies = Inr ms"
    by (cases "flatMap_results bodies") (auto simp: listInboxMessages_def Let_def)
  from assms 1 page cs 2 ps b ms
  have r: "r = \<lparr>conversations = cs, messages = ms\<rparr>" "p' = set_open params" "n' = n2"
    by (auto simp: listInboxMessages_def Let_def)
  from b have "ps = map Inr bodies" by (simp add: Promise_all_Inr_iff)
  with 1 page cs 2 ps ms r show ?thesis by auto
qed

lemma request_Inr:
  assumes "request srv c meth path data n = (Inr j, n')"
  shows "\<exists>response. srv (remote n) (build_request c meth path data) = (Inr response, remote n')
           \<and> ok response \<and> json_body response = Inr j
           \<and> sent n' = sent n @ [build_request c meth path data]"
proof -
  obtain outcome w where s: "srv (remote n) (build_request c meth path data) = (outcome, w)"
    by (cases "srv (remote n) (build_request c meth path data)")
  with assms obtain response where o: "outcome = Inr response"
    by (cases outcome) (auto simp: request_def fetch_def)
  from assms s o have "ok response" "json_body response = Inr j"
    "n' = \<lparr>sent = sent n @ [build_request c meth path data], remote = w\<rparr>"
    by (auto simp: request_def fetch_def split: if_splits sum.splits)
  with s o show ?thesis by simp
qed

lemma messagesPromises_chain:
  "messagesPromises srv c cs n = (Inr ps, n') \<Longrightarrow>
     \<exists>ns. length ns = Suc (length cs) \<and> ns ! 0 = n \<and> ns ! length cs = n'
        \<and> length ps = length cs
        \<and> (\<forall>i<length cs. \<exists>idv.
              get_property ''id'' (cs ! i) = Inr idv
            \<and> listConversationMessages srv c (template_opt idv) (ns ! i) = (ps ! i, ns ! Suc i))"
proof (induction cs arbitrary: n ps n')
  case Nil
  then show ?case by (intro exI[of _ "[n]"]) simp
next
  case (Cons conversation rest)
  from Cons.prems obtain idv where idv: "get_property ''id'' conversation = Inr idv"
    by (cases "get_property ''id'' conversation") auto
  obtain p n1 where 1: "listConversationMessages srv c (template_opt idv) n = (p, n1)"
    by (cases "listConversationMessages srv c (template_opt idv) n")
  obtain r2 n2 where 2: "messagesPromises srv c rest n1 = (r2, n2)"
    by (cases "messagesPromises srv c rest n1")
  from Cons.prems idv 1 2 obtain ps2 where r2: "r2 = Inr ps2" "ps = p # ps2" "n' = n2"
    by (auto split: sum.splits)
  from Cons.IH[OF 2[unfolded r2(1)]] obtain ns where ns: "length ns = Suc (length rest)"
    "ns ! 0 = n1" "ns ! length rest = n2" "length ps2 = length rest"
    "\<forall>i<length rest. \<exists>idv. get_property ''id'' (rest ! i) = Inr idv
        \<and> listConversationMessages srv c (template_opt idv) (ns ! i) = (ps2 ! i, ns ! Suc i)"
    by blast
  have pw: "\<exists>idv. get_property ''id'' ((conversation # rest) ! i) = Inr idv
        \<and> listConversationMessages srv c (template_opt idv) ((n # ns) ! i) =
            ((p # ps2) ! i, (n # ns) ! Suc i)" if "i < length (conversation # rest)" for i
  proof (cases i)
    case 0
    with idv 1 ns(2) show ?thesis by auto
  next
    case (Suc k)
    with that ns(5) show ?thesis by simp
  qed
  show ?case
    by (rule exI[of _ "n # ns"]) (use ns r2 pw in simp)
qed


lemma results_array_Inr:
  "results_array page = Inr cs \<Longrightarrow>
     \<exists>kvs. page = JObj kvs \<and> map_of kvs ''_results'' = Some (JArr cs)"
  by (cases page)
     (auto simp: results_array_def get_property_def split: option.splits json.splits)

lemma flat_results_array:
  "map_of kvs ''_results'' = Some (JArr xs) \<Longrightarrow> flat_results (JObj kvs) = Inr (map Some xs)"
  by (simp add: flat_results_def get_property_def)

lemma map_eq_nth:
  "map f xs = map g ys \<Longrightarrow> length xs = length ys \<and> (\<forall>i<length xs. f (xs ! i) = g (ys ! i))"
  by (metis length_map nth_map)

lemma messages_request_url:
  "get_property ''id'' conversation = Inr idv \<Longrightarrow>
     messages_request c conversation =
       \<lparr>url = baseUrl c @ ''/conversations/'' @ template_opt idv @ ''/messages'',
        method_name = ''GET'',
        headers = [(''Authorization'', ''Bearer '' @ token c),
                   (''Content-Type'', ''application/json''),
                   (''Accept'', ''application/json'')],
        body = None\<rparr>"
  by (simp add: messages_request_def build_request_def)

lemma id_of_object:
  "map_of okvs ''id'' = Some (JStr s) \<Longrightarrow>
     get_property ''id'' (JObj okvs) = Inr (Some (JStr s)) \<and> template_opt (Some (JStr s)) = s"
  by (simp add: get_property_def template_opt_def)

section \<open>Properties of every request\<close>

lemma sublist_mid: "sublist xs (a @ xs @ b)"
  by (auto simp: sublist_def)

lemma carries_build_request: "carries (token c) (baseUrl c) (build_request c meth path data)"
  by (cases data) (auto simp: carries_def build_request_def Let_def)

lemma issued_listInboxConversations:
  "issued n (snd (listInboxConversations srv c inboxId params n)) =
     [conversations_request c inboxId params]"
  using listInboxConversations_sent[of srv c inboxId params n
      "fst (listInboxConversations srv c inboxId params n)"
      "snd (listInboxConversations srv c inboxId params n)"]
  by (simp add: issued_def)

lemma issued_listConversationMessages:
  "issued n (snd (listConversationMessages srv c conversationId n)) =
     [build_request c ''GET'' (''/conversations/'' @ conversationId @ ''/messages'') None]"
  using request_sent[of srv c "''GET''" "''/conversations/'' @ conversationId @ ''/messages''" None n
      "fst (listConversationMessages srv c conversationId n)"
      "snd (listConversationMessages srv c conversationId n)"]
  by (simp add: issued_def listConversationMessages_def)

lemma issued_listInboxMessages:
  "\<exists>cs. issued n (snd (snd (listInboxMessages srv settled c inboxId params n))) =
     conversations_request c inboxId (set_open params) # map (messages_request c) cs"
  using listInboxMessages_sent[of srv settled c inboxId params n
      "fst (listInboxMessages srv settled c inboxId params n)"
      "fst (snd (listInboxMessages srv settled c inboxId params n))"
      "snd (snd (listInboxMessages srv settled c inboxId params n))"]
  by (auto simp: issued_def)

lemma list_all_carries:
  "list_all (carries (token c) (baseUrl c)) (issued n (snd (listInboxConversations srv c inboxId params n)))"
  "list_all (carries (token c) (baseUrl c)) (issued n (snd (listConversationMessages srv c conversationId n)))"
  "list_all (carries (token c) (baseUrl c)) (issued n (snd (snd (listInboxMessages srv settled c inboxId ps n))))"
proof -
  show "list_all (carries (token c) (baseUrl c)) (issued n (snd (listInboxConversations srv c inboxId params n)))"
    by (simp add: issued_listInboxConversations conversations_request_def carries_build_request)
  show "list_all (carries (token c) (baseUrl c)) (issued n (snd (listConversationMessages srv c conversationId n)))"
    by (simp add: issued_listConversationMessages carries_build_request)
  obtain cs where "issued n (snd (snd (listInboxMessages srv settled c inboxId ps n))) =
     conversations_request c inboxId (set_open ps) # map (messages_request c) cs"
    using issued_listInboxMessages by blast
  then show "list_all (carries (token c) (baseUrl c)) (issued n (snd (snd (listInboxMessages srv settled c inboxId ps n))))"
    by (simp add: conversations_request_def messages_request_def carries_build_request list_all_iff)
qed

section \<open>The claims\<close>

text \<open>
  Claim C1. Whenever \<^verbatim>\<open>listInboxMessages\<close> is called with a filter whose \<^verbatim>\<open>onlyUnresolved\<close> is
  true, the conversation query is made with the status \<^verbatim>\<open>open\<close>, whatever status the caller
  put in the filter: the first request issued is the conversation listing for the filter
  with its status replaced by \<^verbatim>\<open>open\<close>; the \<^verbatim>\<open>q\<close> parameter of that listing is the fragment
  \<^verbatim>\<open>status:"open"\<close>, joined to the free text when there is one; and the whole outcome of
  the call is the same for every status \<open>s\<close> supplied.
\<close>

theorem listInboxMessages_onlyUnresolved_open:
  assumes "onlyUnresolved params = Some True"
  shows "(\<exists>cs. sent (snd (snd (listInboxMessages srv settled c inboxId params n))) =
            sent n @ conversations_request c inboxId (params\<lparr>status := Some Open\<rparr>) #
              map (messages_request c) cs)
       \<and> getAll ''q'' (queryParams (params\<lparr>status := Some Open\<rparr>)) =
           [if truthy (q params) then or_else (q params) [] @ '' AND '' @ statusQuery Open
            else statusQuery Open]
       \<and> listInboxMessages srv settled c inboxId (params\<lparr>status := s\<rparr>) n =
           listInboxMessages srv settled c inboxId (params\<lparr>status := Some Open\<rparr>) n"
proof -
  have so: "set_open params = params\<lparr>status := Some Open\<rparr>"
    using assms by (simp add: set_open_def)
  have "\<exists>cs. sent (snd (snd (listInboxMessages srv settled c inboxId params n))) =
          sent n @ conversations_request c inboxId (set_open params) #
            map (messages_request c) cs"
    by (rule listInboxMessages_sent[of srv settled c inboxId params n
          "fst (listInboxMessages srv settled c inboxId params n)"
          "fst (snd (listInboxMessages srv settled c inboxId params n))"]) simp
  moreover have "getAll ''q'' (queryParams (params\<lparr>status := Some Open\<rparr>)) =
           [if truthy (q params) then or_else (q params) [] @ '' AND '' @ statusQuery Open
            else statusQuery Open]"
    by (simp add: getAll_q_queryParams)
  moreover have "listInboxMessages srv settled c inboxId (params\<lparr>status := s\<rparr>) n =
           listInboxMessages srv settled c inboxId (params\<lparr>status := Some Open\<rparr>) n"
    using assms by (simp add: listInboxMessages_def Let_def set_open_def)
  ultimately show ?thesis by (simp add: so)
qed

text \<open>
  The filter of the example asks for the unresolved conversations and for the status
  \<^verbatim>\<open>spam\<close>: the conversation listing is requested with \<^verbatim>\<open>status:"open"\<close>.
\<close>

theorem listInboxMessages_onlyUnresolved_open_witness:
  "onlyUnresolved demo_params = Some True \<and> status demo_params = Some Spam \<and>
   map url (take 1 (sent (snd (snd (listInboxMessages scripted (\<lambda>i. i) demo_client ''inb_1''
      demo_params (online demo_script)))))) =
     [''https://api2.frontapp.com/inboxes/inb_1/conversations?limit=2&q=status%3A%22open%22'']"
proof -
  have h: "onlyUnresolved demo_params = Some True"
    by (simp add: demo_params_def)
  have u: "url (conversations_request demo_client ''inb_1'' (demo_params\<lparr>status := Some Open\<rparr>)) =
     ''https://api2.frontapp.com/inboxes/inb_1/conversations?limit=2&q=status%3A%22open%22''"
    by code_simp
  from listInboxMessages_onlyUnresolved_open[OF h, of scripted "\<lambda>i. i" demo_client "''inb_1''"
      "online demo_script"]
  obtain cs where
    "sent (snd (snd (listInboxMessages scripted (\<lambda>i. i) demo_client ''inb_1'' demo_params
        (online demo_script)))) =
     sent (online demo_script) @
       conversations_request demo_client ''inb_1'' (demo_params\<lparr>status := Some Open\<rparr>) #
       map (messages_request demo_client) cs"
    by blast
  then show ?thesis using h u by (simp add: online_def demo_params_def)
qed

text \<open>
  Claim C2, as stated, fails on a filter whose free-text query is the empty string: with a
  status, the \<^verbatim>\<open>q\<close> parameter is the status fragment alone, not the empty text followed by
  \<^verbatim>\<open> AND \<close> and the fragment (line 110 tests \<^verbatim>\<open>params.q\<close> for truthiness).
\<close>

theorem queryParams_empty_query_counterexample:
  "q (no_filter\<lparr>q := Some [], status := Some Open\<rparr>) = Some [] \<and>
   status (no_filter\<lparr>q := Some [], status := Some Open\<rparr>) = Some Open \<and>
   getAll ''q'' (queryParams (no_filter\<lparr>q := Some [], status := Some Open\<rparr>)) =
     [statusQuery Open] \<and>
   getAll ''q'' (queryParams (no_filter\<lparr>q := Some [], status := Some Open\<rparr>)) \<noteq>
     [[] @ '' AND '' @ statusQuery Open]"
  by (simp add: getAll_q_queryParams no_filter_def truthy_def statusQuery_def)

text \<open>
  Claim C2, amended. For every filter object passed to \<^verbatim>\<open>listInboxConversations\<close>: when a
  free-text query \<open>t\<close> that is not the empty string and a status \<open>s\<close> are both provided, the
  one \<^verbatim>\<open>q\<close> parameter is \<open>t\<close>, then \<^verbatim>\<open> AND \<close>, then \<^verbatim>\<open>status:"s"\<close>; when a status is provided
  and the query is absent or empty, the one \<^verbatim>\<open>q\<close> parameter is \<^verbatim>\<open>status:"s"\<close>; when only a
  query that is not empty is provided, the one \<^verbatim>\<open>q\<close> parameter is that text unchanged. The
  status is never sent as a parameter of its own.
\<close>

theorem queryParams_q_parameter:
  "(q p = Some t \<and> t \<noteq> [] \<and> status p = Some s \<longrightarrow>
      getAll ''q'' (queryParams p) = [t @ '' AND '' @ statusQuery s])
 \<and> ((q p = None \<or> q p = Some []) \<and> status p = Some s \<longrightarrow>
      getAll ''q'' (queryParams p) = [statusQuery s])
 \<and> (q p = Some t \<and> t \<noteq> [] \<and> status p = None \<longrightarrow>
      getAll ''q'' (queryParams p) = [t])
 \<and> getAll ''status'' (queryParams p) = []"
  by (auto simp: getAll_q_queryParams getAll_status_queryParams truthy_def or_else_def
      split: option.splits)

theorem queryParams_q_parameter_witness:
  "getAll ''q'' (queryParams (no_filter\<lparr>q := Some ''refund'', status := Some Open\<rparr>)) =
     [''refund AND status:'' @ [CHR 0x22] @ ''open'' @ [CHR 0x22]]
 \<and> getAll ''q'' (queryParams (no_filter\<lparr>status := Some Archived\<rparr>)) =
     [''status:'' @ [CHR 0x22] @ ''archived'' @ [CHR 0x22]]
 \<and> getAll ''q'' (queryParams (no_filter\<lparr>q := Some [], status := Some Archived\<rparr>)) =
     [''status:'' @ [CHR 0x22] @ ''archived'' @ [CHR 0x22]]
 \<and> getAll ''q'' (queryParams (no_filter\<lparr>q := Some ''refund''\<rparr>)) = [''refund'']
 \<and> getAll ''status'' (queryParams (no_filter\<lparr>q := Some ''refund'', status := Some Open\<rparr>)) = []"
  using queryParams_q_parameter[of "no_filter\<lparr>q := Some ''refund'', status := Some Open\<rparr>"
          "''refund''" Open]
        queryParams_q_parameter[of "no_filter\<lparr>status := Some Archived\<rparr>" "[]" Archived]
        queryParams_q_parameter[of "no_filter\<lparr>q := Some [], status := Some Archived\<rparr>" "[]"
          Archived]
        queryParams_q_parameter[of "no_filter\<lparr>q := Some ''refund''\<rparr>" "''refund''" Open]
  by (simp add: no_filter_def statusQuery_def)

text \<open>
  Claim C3. Whenever \<^verbatim>\<open>listInboxMessages\<close> returns a result, for any page of conversations
  (the empty page included): the body of the conversation listing is an object whose
  \<^verbatim>\<open>_results\<close> is the array of the conversations returned. For each index \<open>i\<close> of that
  array, in the network state \<open>ns ! i\<close> left by the listings before it,
  \<^verbatim>\<open>listConversationMessages\<close> is called with the \<^verbatim>\<open>id\<close> of the conversation at \<open>i\<close>; its
  request, whose URL ends in \<^verbatim>\<open>/conversations/<id>/messages\<close>, is the next one sent; the remote
  platform answers it with an \<^verbatim>\<open>ok\<close> response whose parsed body is \<open>bodies ! i\<close>; and that
  body contributes \<open>arrays ! i\<close>, which is its \<^verbatim>\<open>_results\<close> array, element by element in its own
  order, when it has one. The messages returned are the concatenation of
  \<open>arrays ! 0\<close>, \<open>arrays ! 1\<close>, ... in the order of the conversations.
\<close>

theorem listInboxMessages_messages_in_order:
  assumes "listInboxMessages srv settled c inboxId params n = (Inr r, p', n')"
  shows "\<exists>kvs ns bodies arrays.
      fst (listInboxConversations srv c inboxId p' n) = Inr (JObj kvs)
    \<and> map_of kvs ''_results'' = Some (JArr (conversations r))
    \<and> length ns = Suc (length (conversations r))
    \<and> ns ! 0 = snd (listInboxConversations srv c inboxId p' n)
    \<and> ns ! length (conversations r) = n'
    \<and> length bodies = length (conversations r)
    \<and> length arrays = length (conversations r)
    \<and> (\<forall>i<length (conversations r). \<exists>idv response.
          get_property ''id'' (conversations r ! i) = Inr idv
        \<and> listConversationMessages srv c (template_opt idv) (ns ! i) =
            (Inr (bodies ! i), ns ! Suc i)
        \<and> sent (ns ! Suc i) = sent (ns ! i) @ [messages_request c (conversations r ! i)]
        \<and> url (messages_request c (conversations r ! i)) =
            baseUrl c @ ''/conversations/'' @ template_opt idv @ ''/messages''
        \<and> (\<forall>okvs s. conversations r ! i = JObj okvs \<and> map_of okvs ''id'' = Some (JStr s) \<longrightarrow>
              url (messages_request c (conversations r ! i)) =
                baseUrl c @ ''/conversations/'' @ s @ ''/messages'')
        \<and> srv (remote (ns ! i)) (messages_request c (conversations r ! i)) =
            (Inr response, remote (ns ! Suc i))
        \<and> ok response
        \<and> json_body response = Inr (bodies ! i)
        \<and> flat_results (bodies ! i) = Inr (arrays ! i)
        \<and> (\<forall>bkvs xs. bodies ! i = JObj bkvs \<and> map_of bkvs ''_results'' = Some (JArr xs) \<longrightarrow>
              arrays ! i = map Some xs))
    \<and> messages r = concat arrays"
proof -
  let ?cs = "conversations r"
  from listInboxMessages_Inr[OF assms] obtain page n1 bodies where
    1: "listInboxConversations srv c inboxId p' n = (Inr page, n1)"
    and 2: "results_array page = Inr ?cs"
    and 3: "messagesPromises srv c ?cs n1 = (Inr (map Inr bodies), n')"
    and 4: "flatMap_results bodies = Inr (messages r)"
    by blast
  from results_array_Inr[OF 2] obtain kvs where
    kvs: "page = JObj kvs" "map_of kvs ''_results'' = Some (JArr ?cs)"
    by blast
  from messagesPromises_chain[OF 3] obtain ns where
    ns: "length ns = Suc (length ?cs)" "ns ! 0 = n1" "ns ! length ?cs = n'"
    and lb: "length bodies = length ?cs"
    and calls: "\<forall>i<length ?cs. \<exists>idv.
        get_property ''id'' (?cs ! i) = Inr idv
      \<and> listConversationMessages srv c (template_opt idv) (ns ! i) =
          (map Inr bodies ! i, ns ! Suc i)"
    by auto
  from flatMap_results_Inr[OF 4] obtain arrays where
    arrays: "map flat_results bodies = map Inr arrays" "messages r = concat arrays"
    by blast
  from map_eq_nth[OF arrays(1)] have la: "length arrays = length bodies"
    and fl: "\<forall>i<length bodies. flat_results (bodies ! i) = Inr (arrays ! i)"
    by simp_all
  have pw: "\<exists>idv response.
          get_property ''id'' (?cs ! i) = Inr idv
        \<and> listConversationMessages srv c (template_opt idv) (ns ! i) =
            (Inr (bodies ! i), ns ! Suc i)
        \<and> sent (ns ! Suc i) = sent (ns ! i) @ [messages_request c (?cs ! i)]
        \<and> url (messages_request c (?cs ! i)) =
            baseUrl c @ ''/conversations/'' @ template_opt idv @ ''/messages''
        \<and> (\<forall>okvs s. ?cs ! i = JObj okvs \<and> map_of okvs ''id'' = Some (JStr s) \<longrightarrow>
              url (messages_request c (?cs ! i)) =
                baseUrl c @ ''/conversations/'' @ s @ ''/messages'')
        \<and> srv (remote (ns ! i)) (messages_request c (?cs ! i)) =
            (Inr response, remote (ns ! Suc i))
        \<and> ok response
        \<and> json_body response = Inr (bodies ! i)
        \<and> flat_results (bodies ! i) = Inr (arrays ! i)
        \<and> (\<forall>bkvs xs. bodies ! i = JObj bkvs \<and> map_of bkvs ''_results'' = Some (JArr xs) \<longrightarrow>
              arrays ! i = map Some xs)" if i: "i < length ?cs" for i
  proof -
    from calls i lb obtain idv where
      idv: "get_property ''id'' (?cs ! i) = Inr idv"
      and call: "listConversationMessages srv c (template_opt idv) (ns ! i) =
          (Inr (bodies ! i), ns ! Suc i)"
      by auto
    have req: "messages_request c (?cs ! i) =
        build_request c ''GET''
          (''/conversations/'' @ template_opt idv @ ''/messages'') None"
      by (simp add: messages_request_def idv)
    from request_Inr[OF call[unfolded listConversationMessages_def]] req
    obtain response where
      resp: "srv (remote (ns ! i)) (messages_request c (?cs ! i)) =
          (Inr response, remote (ns ! Suc i))"
        "ok response" "json_body response = Inr (bodies ! i)"
        "sent (ns ! Suc i) = sent (ns ! i) @ [messages_request c (?cs ! i)]"
      by auto
    have u: "url (messages_request c (?cs ! i)) =
            baseUrl c @ ''/conversations/'' @ template_opt idv @ ''/messages''"
      by (simp add: messages_request_url[OF idv])
    have typed: "\<forall>okvs s. ?cs ! i = JObj okvs \<and> map_of okvs ''id'' = Some (JStr s) \<longrightarrow>
              url (messages_request c (?cs ! i)) =
                baseUrl c @ ''/conversations/'' @ s @ ''/messages''"
    proof (intro allI impI)
      fix okvs s assume a: "?cs ! i = JObj okvs \<and> map_of okvs ''id'' = Some (JStr s)"
      with id_of_object[of okvs s] idv have "template_opt idv = s" by auto
      with u show "url (messages_request c (?cs ! i)) =
                baseUrl c @ ''/conversations/'' @ s @ ''/messages''" by simp
    qed
    from fl i lb have f: "flat_results (bodies ! i) = Inr (arrays ! i)" by simp
    have farr: "\<forall>bkvs xs. bodies ! i = JObj bkvs \<and> map_of bkvs ''_results'' = Some (JArr xs) \<longrightarrow>
              arrays ! i = map Some xs"
    proof (intro allI impI)
      fix bkvs xs assume a: "bodies ! i = JObj bkvs \<and> map_of bkvs ''_results'' = Some (JArr xs)"
      with flat_results_array[of bkvs xs] f show "arrays ! i = map Some xs" by simp
    qed
    show ?thesis
      by (rule exI[of _ idv], rule exI[of _ response])
         (intro conjI idv call resp(4) u typed resp(1) resp(2) resp(3) f farr)
  qed
  have lic: "fst (listInboxConversations srv c inboxId p' n) = Inr (JObj kvs)"
    and ns0: "ns ! 0 = snd (listInboxConversations srv c inboxId p' n)"
    using 1 kvs(1) ns(2) by simp_all
  from la lb have la': "length arrays = length ?cs" by simp
  from pw have pw': "\<forall>i<length ?cs. \<exists>idv response.
          get_property ''id'' (?cs ! i) = Inr idv
        \<and> listConversationMessages srv c (template_opt idv) (ns ! i) =
            (Inr (bodies ! i), ns ! Suc i)
        \<and> sent (ns ! Suc i) = sent (ns ! i) @ [messages_request c (?cs ! i)]
        \<and> url (messages_request c (?cs ! i)) =
            baseUrl c @ ''/conversations/'' @ template_opt idv @ ''/messages''
        \<and> (\<forall>okvs s. ?cs ! i = JObj okvs \<and> map_of okvs ''id'' = Some (JStr s) \<longrightarrow>
              url (messages_request c (?cs ! i)) =
                baseUrl c @ ''/conversations/'' @ s @ ''/messages'')
        \<and> srv (remote (ns ! i)) (messages_request c (?cs ! i)) =
            (Inr response, remote (ns ! Suc i))
        \<and> ok response
        \<and> json_body response = Inr (bodies ! i)
        \<and> flat_results (bodies ! i) = Inr (arrays ! i)
        \<and> (\<forall>bkvs xs. bodies ! i = JObj bkvs \<and> map_of bkvs ''_results'' = Some (JArr xs) \<longrightarrow>
              arrays ! i = map Some xs)"
    by blast
  show ?thesis
    by (rule exI[of _ kvs], rule exI[of _ ns], rule exI[of _ bodies], rule exI[of _ arrays])
       (intro conjI lic kvs(2) ns(1) ns0 ns(3) lb la' pw' arrays(2))
qed

text \<open>
  The inbox of the example has the conversations c1, c2 and c3 with the messages m1 and
  m2, none, and m3: the listings are requested for c1, c2, c3 in that order and the
  messages returned are m1, m2, m3. An empty page gives no messages.
\<close>

theorem listInboxMessages_messages_in_order_witness:
  "fst (listInboxMessages scripted (\<lambda>i. i) demo_client ''inb_1'' demo_params (online demo_script)) =
     Inr \<lparr>conversations = [item ''c1'', item ''c2'', item ''c3''],
          messages = [Some (item ''m1''), Some (item ''m2'')] @ [] @ [Some (item ''m3'')]\<rparr>
 \<and> map url (sent (snd (snd (listInboxMessages scripted (\<lambda>i. i) demo_client ''inb_1''
        demo_params (online demo_script))))) =
     [''https://api2.frontapp.com/inboxes/inb_1/conversations?limit=2&q=status%3A%22open%22'',
      ''https://api2.frontapp.com/conversations/c1/messages'',
      ''https://api2.frontapp.com/conversations/c2/messages'',
      ''https://api2.frontapp.com/conversations/c3/messages'']
 \<and> (\<exists>ns bodies arrays.
       length ns = 4 \<and> length bodies = 3 \<and> length arrays = 3
     \<and> fst (listConversationMessages scripted demo_client ''c1'' (ns ! 0)) = Inr (bodies ! 0)
     \<and> fst (listConversationMessages scripted demo_client ''c2'' (ns ! 1)) = Inr (bodies ! 1)
     \<and> fst (listConversationMessages scripted demo_client ''c3'' (ns ! 2)) = Inr (bodies ! 2)
     \<and> flat_results (bodies ! 0) = Inr (arrays ! 0)
     \<and> flat_results (bodies ! 1) = Inr (arrays ! 1)
     \<and> flat_results (bodies ! 2) = Inr (arrays ! 2)
     \<and> [Some (item ''m1''), Some (item ''m2''), Some (item ''m3'')] = concat arrays)
 \<and> flat_results (page_of [item ''m1'', item ''m2'']) = Inr [Some (item ''m1''), Some (item ''m2'')]
 \<and> fst (listInboxMessages scripted (\<lambda>i. i) demo_client ''inb_1'' demo_params
         (online [respond_ok (page_of [])])) = Inr \<lparr>conversations = [], messages = []\<rparr>"
proof -
  let ?call = "listInboxMessages scripted (\<lambda>i. i) demo_client ''inb_1'' demo_params
                 (online demo_script)"
  let ?r = "\<lparr>conversations = [item ''c1'', item ''c2'', item ''c3''],
             messages = [Some (item ''m1''), Some (item ''m2''), Some (item ''m3'')]\<rparr>"
  have run: "fst ?call = Inr ?r"
    by code_simp
  have urls: "map url (sent (snd (snd ?call))) =
     [''https://api2.frontapp.com/inboxes/inb_1/conversations?limit=2&q=status%3A%22open%22'',
      ''https://api2.frontapp.com/conversations/c1/messages'',
      ''https://api2.frontapp.com/conversations/c2/messages'',
      ''https://api2.frontapp.com/conversations/c3/messages'']"
    by code_simp
  have fr: "flat_results (page_of [item ''m1'', item ''m2'']) =
      Inr [Some (item ''m1''), Some (item ''m2'')]"
    by code_simp
  have empty: "fst (listInboxMessages scripted (\<lambda>i. i) demo_client ''inb_1'' demo_params
         (online [respond_ok (page_of [])])) = Inr \<lparr>conversations = [], messages = []\<rparr>"
    by code_simp
  have i1: "get_property ''id'' (item ''c1'') = Inr (Some (JStr ''c1''))"
    and i2: "get_property ''id'' (item ''c2'') = Inr (Some (JStr ''c2''))"
    and i3: "get_property ''id'' (item ''c3'') = Inr (Some (JStr ''c3''))"
    and t: "\<And>s. template_opt (Some (JStr s)) = s"
    by (simp_all add: get_property_def item_def template_opt_def)
  from run have "?call = (Inr ?r, fst (snd ?call), snd (snd ?call))"
    by (metis prod.collapse)
  from listInboxMessages_messages_in_order[OF this] obtain ns bodies arrays where
    l: "length ns = Suc (length (conversations ?r))" "length bodies = length (conversations ?r)"
       "length arrays = length (conversations ?r)"
    and calls: "\<forall>i<length (conversations ?r). \<exists>idv response.
          get_property ''id'' (conversations ?r ! i) = Inr idv
        \<and> listConversationMessages scripted demo_client (template_opt idv) (ns ! i) =
            (Inr (bodies ! i), ns ! Suc i)
        \<and> sent (ns ! Suc i) = sent (ns ! i) @ [messages_request demo_client (conversations ?r ! i)]
        \<and> url (messages_request demo_client (conversations ?r ! i)) =
            baseUrl demo_client @ ''/conversations/'' @ template_opt idv @ ''/messages''
        \<and> (\<forall>okvs s. conversations ?r ! i = JObj okvs \<and> map_of okvs ''id'' = Some (JStr s) \<longrightarrow>
              url (messages_request demo_client (conversations ?r ! i)) =
                baseUrl demo_client @ ''/conversations/'' @ s @ ''/messages'')
        \<and> scripted (remote (ns ! i)) (messages_request demo_client (conversations ?r ! i)) =
            (Inr response, remote (ns ! Suc i))
        \<and> ok response
        \<and> json_body response = Inr (bodies ! i)
        \<and> flat_results (bodies ! i) = Inr (arrays ! i)
        \<and> (\<forall>bkvs xs. bodies ! i = JObj bkvs \<and> map_of bkvs ''_results'' = Some (JArr xs) \<longrightarrow>
              arrays ! i = map Some xs)"
    and m: "messages ?r = concat arrays"
    by blast
  from l have l': "length ns = 4" "length bodies = 3" "length arrays = 3"
    by simp_all
  from calls[rule_format, of 0] i1 t
  have k0: "fst (listConversationMessages scripted demo_client ''c1'' (ns ! 0)) = Inr (bodies ! 0)"
    "flat_results (bodies ! 0) = Inr (arrays ! 0)"
    by auto
  from calls[rule_format, of 1] i2 t
  have k1: "fst (listConversationMessages scripted demo_client ''c2'' (ns ! 1)) = Inr (bodies ! 1)"
    "flat_results (bodies ! 1) = Inr (arrays ! 1)"
    by auto
  from calls[rule_format, of 2] i3 t
  have k2: "fst (listConversationMessages scripted demo_client ''c3'' (ns ! 2)) = Inr (bodies ! 2)"
    "flat_results (bodies ! 2) = Inr (arrays ! 2)"
    by auto
  from m have m': "[Some (item ''m1''), Some (item ''m2''), Some (item ''m3'')] = concat arrays"
    by simp
  from l' k0 k1 k2 m' have ex: "\<exists>ns bodies arrays.
       length ns = 4 \<and> length bodies = 3 \<and> length arrays = 3
     \<and> fst (listConversationMessages scripted demo_client ''c1'' (ns ! 0)) = Inr (bodies ! 0)
     \<and> fst (listConversationMessages scripted demo_client ''c2'' (ns ! 1)) = Inr (bodies ! 1)
     \<and> fst (listConversationMessages scripted demo_client ''c3'' (ns ! 2)) = Inr (bodies ! 2)
     \<and> flat_results (bodies ! 0) = Inr (arrays ! 0)
     \<and> flat_results (bodies ! 1) = Inr (arrays ! 1)
     \<and> flat_results (bodies ! 2) = Inr (arrays ! 2)
     \<and> [Some (item ''m1''), Some (item ''m2''), Some (item ''m3'')] = concat arrays"
    by blast
  from run have run': "fst ?call =
     Inr \<lparr>conversations = [item ''c1'', item ''c2'', item ''c3''],
          messages = [Some (item ''m1''), Some (item ''m2'')] @ [] @ [Some (item ''m3'')]\<rparr>"
    by simp
  show ?thesis
    by (intro conjI run' urls ex fr empty)
qed



text \<open>
  Claim C5, as stated, fails for a response with a success status whose body does not
  parse as JSON, such as a 204 without a body: line 78 returns \<^verbatim>\<open>response.json()\<close> as it is,
  so the request fails with the rejection of \<^verbatim>\<open>json()\<close> and yields no body.
\<close>

theorem request_unparseable_success_counterexample:
  "ok no_content
 \<and> status_code no_content = 204
 \<and> fst (request scripted demo_client ''GET'' ''/conversations/c2/messages'' None
           (online [Inr no_content])) = Inl (SyntaxError ''Unexpected end of JSON input'')"
  by code_simp

text \<open>
  Claim C5, amended. For every exchange in which \<^verbatim>\<open>fetch\<close> gives a response: when the status
  is not a success status (it is outside 200 to 299, so the response is not \<^verbatim>\<open>ok\<close>), the
  request fails with an \<^verbatim>\<open>Error\<close> whose description is \<^verbatim>\<open>Front API request failed: \<close>, the
  status code, a space, the status text, \<^verbatim>\<open> - \<close> and the serialised error body, the empty
  object standing for a body that cannot be parsed; so the description contains the status
  code, the status text and the serialised body. In particular a 404 with the body
  \<^verbatim>\<open>{"message":"not found"}\<close> fails with a description containing \<^verbatim>\<open>404\<close>, the status text
  and \<^verbatim>\<open>not found\<close>. When the status is a success status and the body parses to \<open>j\<close>, the
  request returns \<open>j\<close>; when the status is a success status and the body does not parse,
  the request fails with the rejection of \<^verbatim>\<open>json()\<close>.
\<close>

theorem request_outcome:
  assumes "srv (remote n) (build_request c meth path data) = (Inr response, w)"
  shows "(\<not> ok response \<longrightarrow>
           (\<exists>description.
              fst (request srv c meth path data n) = Inl (Error description)
            \<and> description =
                ''Front API request failed: '' @ show_nat (status_code response) @ '' '' @
                statusText response @ '' - '' @
                stringify (case json_body response of Inl m \<Rightarrow> JObj [] | Inr j \<Rightarrow> j)
            \<and> sublist (show_nat (status_code response)) description
            \<and> sublist (statusText response) description
            \<and> sublist (stringify (case json_body response of Inl m \<Rightarrow> JObj [] | Inr j \<Rightarrow> j))
                 description))
       \<and> (status_code response = 404 \<and>
          json_body response = Inr (JObj [(''message'', JStr ''not found'')]) \<longrightarrow>
           (\<exists>description.
              fst (request srv c meth path data n) = Inl (Error description)
            \<and> sublist ''404'' description
            \<and> sublist (statusText response) description
            \<and> sublist ''not found'' description))
       \<and> (ok response \<and> json_body response = Inr j \<longrightarrow>
            fst (request srv c meth path data n) = Inr j)
       \<and> (ok response \<and> json_body response = Inl m \<longrightarrow>
            fst (request srv c meth path data n) = Inl (SyntaxError m))"
proof -
  let ?body = "case json_body response of Inl m \<Rightarrow> JObj [] | Inr j \<Rightarrow> j"
  let ?d = "''Front API request failed: '' @ show_nat (status_code response) @ '' '' @
            statusText response @ '' - '' @ stringify ?body"
  have 2: "sublist (show_nat (status_code response)) ?d"
    using sublist_mid[of "show_nat (status_code response)" "''Front API request failed: ''"
        "'' '' @ statusText response @ '' - '' @ stringify ?body"]
    by simp
  have 3: "sublist (statusText response) ?d"
    using sublist_mid[of "statusText response"
        "''Front API request failed: '' @ show_nat (status_code response) @ '' ''"
        "'' - '' @ stringify ?body"]
    by simp
  have 4: "sublist (stringify ?body) ?d"
    using sublist_mid[of "stringify ?body"
        "''Front API request failed: '' @ show_nat (status_code response) @ '' '' @
           statusText response @ '' - ''" "[]"]
    by simp
  have fail: "fst (request srv c meth path data n) = Inl (Error ?d)" if "\<not> ok response"
    using assms that by (simp add: request_def fetch_def failure_message_def)
  have A: "\<not> ok response \<longrightarrow>
           (\<exists>description.
              fst (request srv c meth path data n) = Inl (Error description)
            \<and> description = ?d
            \<and> sublist (show_nat (status_code response)) description
            \<and> sublist (statusText response) description
            \<and> sublist (stringify ?body) description)"
  proof
    assume "\<not> ok response"
    from fail[OF this] show "\<exists>description.
              fst (request srv c meth path data n) = Inl (Error description)
            \<and> description = ?d
            \<and> sublist (show_nat (status_code response)) description
            \<and> sublist (statusText response) description
            \<and> sublist (stringify ?body) description"
      by (intro exI[of _ ?d] conjI refl 2 3 4)
  qed
  have B: "status_code response = 404 \<and>
          json_body response = Inr (JObj [(''message'', JStr ''not found'')]) \<longrightarrow>
           (\<exists>description.
              fst (request srv c meth path data n) = Inl (Error description)
            \<and> sublist ''404'' description
            \<and> sublist (statusText response) description
            \<and> sublist ''not found'' description)"
  proof
    assume a: "status_code response = 404 \<and>
          json_body response = Inr (JObj [(''message'', JStr ''not found'')])"
    then have nok: "\<not> ok response" by (simp add: ok_def)
    have s404: "show_nat 404 = ''404''" by code_simp
    have nf: "sublist ''not found'' (stringify (JObj [(''message'', JStr ''not found'')]))"
      by code_simp
    from a have sc: "status_code response = 404"
      and b: "json_body response = Inr (JObj [(''message'', JStr ''not found'')])"
      by simp_all
    have d404: "sublist ''404'' ?d"
      using 2 by (simp only: sc s404)
    have "sublist (stringify (JObj [(''message'', JStr ''not found'')])) ?d"
      using 4 by (simp only: b sum.case)
    with nf have dnf: "sublist ''not found'' ?d"
      by (rule sublist_order.order.trans)
    show "\<exists>description.
              fst (request srv c meth path data n) = Inl (Error description)
            \<and> sublist ''404'' description
            \<and> sublist (statusText response) description
            \<and> sublist ''not found'' description"
      by (rule exI[of _ ?d]) (intro conjI fail[OF nok] d404 3 dnf)
  qed
  have C: "ok response \<and> json_body response = Inr j \<longrightarrow>
            fst (request srv c meth path data n) = Inr j"
    using assms by (simp add: request_def fetch_def)
  have D: "ok response \<and> json_body response = Inl m \<longrightarrow>
            fst (request srv c meth path data n) = Inl (SyntaxError m)"
    using assms by (simp add: request_def fetch_def)
  show ?thesis
    by (intro conjI A B C D)
qed

text \<open>
  A 404 with the body \<^verbatim>\<open>{"message":"not found"}\<close> gives a description containing \<^verbatim>\<open>404\<close>,
  \<^verbatim>\<open>Not Found\<close> and \<^verbatim>\<open>not found\<close>; a 502 whose body is not JSON gives one containing \<^verbatim>\<open>{}\<close>;
  a 200 gives the parsed body; a 204 without a body gives the rejection of \<^verbatim>\<open>json()\<close>.
\<close>

theorem request_outcome_witness:
  "(\<exists>description.
      fst (request scripted demo_client ''GET'' ''/conversations/c2/messages'' None
             (online [Inr not_found])) = Inl (Error description)
    \<and> sublist ''404'' description
    \<and> sublist ''Not Found'' description
    \<and> sublist ''not found'' description)
 \<and> (\<exists>description.
      fst (request scripted demo_client ''GET'' ''/conversations/c2/messages'' None
             (online [Inr bad_gateway])) = Inl (Error description)
    \<and> sublist ''502'' description
    \<and> sublist ''Bad Gateway'' description
    \<and> sublist ''{}'' description)
 \<and> fst (request scripted demo_client ''GET'' ''/conversations/c2/messages'' None
           (online [respond_ok (page_of [item ''m1''])])) = Inr (page_of [item ''m1''])
 \<and> fst (request scripted demo_client ''GET'' ''/conversations/c2/messages'' None
           (online [Inr no_content])) = Inl (SyntaxError ''Unexpected end of JSON input'')"
proof -
  let ?req = "build_request demo_client ''GET'' ''/conversations/c2/messages'' None"
  let ?body = "\<lambda>r. case json_body r of Inl m \<Rightarrow> JObj [] | Inr j \<Rightarrow> j"
  let ?ok = "\<lparr>status_code = 200, statusText = ''OK'', json_body = Inr (page_of [item ''m1''])\<rparr>"
  have h1: "scripted (remote (online [Inr not_found])) ?req = (Inr not_found, [])"
    by (simp add: online_def)
  have h2: "scripted (remote (online [Inr bad_gateway])) ?req = (Inr bad_gateway, [])"
    by (simp add: online_def)
  have h3: "scripted (remote (online [respond_ok (page_of [item ''m1''])])) ?req = (Inr ?ok, [])"
    by (simp add: online_def respond_ok_def)
  have h4: "scripted (remote (online [Inr no_content])) ?req = (Inr no_content, [])"
    by (simp add: online_def)
  have nf: "status_code not_found = 404 \<and>
      json_body not_found = Inr (JObj [(''message'', JStr ''not found'')])"
    by (simp add: not_found_def)
  have nft: "statusText not_found = ''Not Found''"
    by (simp add: not_found_def)
  have bg1: "\<not> ok bad_gateway"
    by (simp add: bad_gateway_def ok_def)
  have bg2: "show_nat (status_code bad_gateway) = ''502''"
    by code_simp
  have bg3: "statusText bad_gateway = ''Bad Gateway''"
    by (simp add: bad_gateway_def)
  have bg4: "stringify (?body bad_gateway) = ''{}''"
    by code_simp
  have ok3: "ok ?ok \<and> json_body ?ok = Inr (page_of [item ''m1''])"
    by (simp add: ok_def)
  have ok4: "ok no_content \<and> json_body no_content = Inl ''Unexpected end of JSON input''"
    by (simp add: ok_def no_content_def)
  note inst = request_outcome[where srv = scripted and c = demo_client and meth = "''GET''"
      and path = "''/conversations/c2/messages''" and data = None]
  from inst[where n = "online [Inr not_found]", OF h1, THEN conjunct2, THEN conjunct1,
      rule_format, OF nf]
  have 1: "\<exists>description.
      fst (request scripted demo_client ''GET'' ''/conversations/c2/messages'' None
             (online [Inr not_found])) = Inl (Error description)
    \<and> sublist ''404'' description
    \<and> sublist ''Not Found'' description
    \<and> sublist ''not found'' description"
    by (simp only: nft)
  from inst[where n = "online [Inr bad_gateway]", OF h2, THEN conjunct1, rule_format, OF bg1]
  obtain d' where d': "fst (request scripted demo_client ''GET'' ''/conversations/c2/messages''
             None (online [Inr bad_gateway])) = Inl (Error d')"
    "sublist (show_nat (status_code bad_gateway)) d'" "sublist (statusText bad_gateway) d'"
    "sublist (stringify (?body bad_gateway)) d'"
    by blast
  from d'(1) d'(2)[unfolded bg2] d'(3)[unfolded bg3] d'(4)[unfolded bg4]
  have 2: "\<exists>description.
      fst (request scripted demo_client ''GET'' ''/conversations/c2/messages'' None
             (online [Inr bad_gateway])) = Inl (Error description)
    \<and> sublist ''502'' description
    \<and> sublist ''Bad Gateway'' description
    \<and> sublist ''{}'' description"
    by blast
  from inst[where n = "online [respond_ok (page_of [item ''m1''])]"
      and j = "page_of [item ''m1'']", OF h3, THEN conjunct2, THEN conjunct2, THEN conjunct1,
      rule_format, OF ok3]
  have 3: "fst (request scripted demo_client ''GET'' ''/conversations/c2/messages'' None
           (online [respond_ok (page_of [item ''m1''])])) = Inr (page_of [item ''m1''])" .
  from inst[where n = "online [Inr no_content]" and m = "''Unexpected end of JSON input''",
      OF h4, THEN conjunct2, THEN conjunct2, THEN conjunct2, rule_format, OF ok4]
  have 4: "fst (request scripted demo_client ''GET'' ''/conversations/c2/messages'' None
           (online [Inr no_content])) = Inl (SyntaxError ''Unexpected end of JSON input'')" .
  show ?thesis
    by (intro conjI 1 2 3 4)
qed

text \<open>
  Claim C6. Every call of the tool with a limit below 1 or above 100 is rejected by the
  schema, with the network state as it was: the handler is not called and no request is
  issued.
\<close>

theorem getConversations_rejects_limit:
  assumes "limit_arg args = Some k" and "k < 1 \<or> 100 < k"
  shows "(\<exists>m. getConversations env srv settled args n = (Inl (McpError m), n))
       \<and> issued n (snd (getConversations env srv settled args n)) = []"
  using assms by (auto simp: getConversations_def limit_schema_def issued_def)

text \<open>
  The limits 0 and 101 are rejected and nothing is sent; the limit 100 is accepted and the
  four requests of the example are issued.
\<close>

theorem getConversations_rejects_limit_witness:
  "(\<exists>m. getConversations demo_env scripted (\<lambda>i. i) (no_arguments\<lparr>limit_arg := Some 0\<rparr>)
          (online demo_script) = (Inl (McpError m), online demo_script))
 \<and> (\<exists>m. getConversations demo_env scripted (\<lambda>i. i) (no_arguments\<lparr>limit_arg := Some 101\<rparr>)
          (online demo_script) = (Inl (McpError m), online demo_script))
 \<and> sent (snd (getConversations demo_env scripted (\<lambda>i. i) (no_arguments\<lparr>limit_arg := Some 101\<rparr>)
          (online demo_script))) = []
 \<and> length (sent (snd (getConversations demo_env scripted (\<lambda>i. i)
          (no_arguments\<lparr>limit_arg := Some 100\<rparr>) (online demo_script)))) = 4"
proof -
  have 1: "\<exists>m. getConversations demo_env scripted (\<lambda>i. i) (no_arguments\<lparr>limit_arg := Some 0\<rparr>)
          (online demo_script) = (Inl (McpError m), online demo_script)"
    by (rule getConversations_rejects_limit[of _ 0, THEN conjunct1]) simp_all
  have 2: "\<exists>m. getConversations demo_env scripted (\<lambda>i. i) (no_arguments\<lparr>limit_arg := Some 101\<rparr>)
          (online demo_script) = (Inl (McpError m), online demo_script)"
    by (rule getConversations_rejects_limit[of _ 101, THEN conjunct1]) simp_all
  from 2 have 3: "sent (snd (getConversations demo_env scripted (\<lambda>i. i)
          (no_arguments\<lparr>limit_arg := Some 101\<rparr>) (online demo_script))) = []"
    by (auto simp: online_def)
  have 4: "length (sent (snd (getConversations demo_env scripted (\<lambda>i. i)
          (no_arguments\<lparr>limit_arg := Some 100\<rparr>) (online demo_script)))) = 4"
    by code_simp
  from 1 2 3 4 show ?thesis by blast
qed

text \<open>
  Claim C7, as stated, fails for an explicit token that is the empty string, and for a
  base URL override that is the empty string: the constructor takes the token of the
  environment, or the default base URL, in its place (lines 26 and 34 test for truthiness).
  With the explicit token \<^verbatim>\<open>''\<close>, no override and \<^verbatim>\<open>secret\<close> in the environment, the request
  of a conversation list call carries \<^verbatim>\<open>Bearer secret\<close>, not \<^verbatim>\<open>Bearer \<close> followed by the
  explicit token. With the override \<^verbatim>\<open>''\<close>, the client is the one with the default base URL,
  whose requests keep the default prefix: the override did not replace it.
\<close>

theorem new_FrontClient_empty_token_counterexample:
  "token_opt \<lparr>token_opt = Some [], baseUrl_opt = None\<rparr> = Some []
 \<and> new_FrontClient demo_env \<lparr>token_opt = Some [], baseUrl_opt = None\<rparr> = Inr demo_client
 \<and> issued (online demo_script)
       (snd (listInboxConversations scripted demo_client ''inb_1'' no_filter (online demo_script))) =
     [\<lparr>url = ''https://api2.frontapp.com/inboxes/inb_1/conversations'', method_name = ''GET'',
       headers = [(''Authorization'', ''Bearer secret''),
                  (''Content-Type'', ''application/json''),
                  (''Accept'', ''application/json'')],
       body = None\<rparr>]
 \<and> (''Authorization'', ''Bearer '' @ []) \<notin>
       set [(''Authorization'', ''Bearer secret''), (''Content-Type'', ''application/json''),
            (''Accept'', ''application/json'')]
 \<and> baseUrl_opt \<lparr>token_opt = Some ''secret'', baseUrl_opt = Some []\<rparr> = Some []
 \<and> new_FrontClient demo_env \<lparr>token_opt = Some ''secret'', baseUrl_opt = Some []\<rparr> =
       Inr demo_client
 \<and> ''https://api2.frontapp.com/inboxes/inb_1/conversations'' \<noteq>
       [] @ conversations_path ''inb_1'' no_filter"
proof -
  have "new_FrontClient demo_env \<lparr>token_opt = Some [], baseUrl_opt = None\<rparr> = Inr demo_client"
    by (simp add: new_FrontClient_def demo_env_def demo_client_def or_else_def)
  moreover have "new_FrontClient demo_env \<lparr>token_opt = Some ''secret'', baseUrl_opt = Some []\<rparr> =
       Inr demo_client"
    by (simp add: new_FrontClient_def demo_env_def demo_client_def or_else_def)
  moreover have "issued (online demo_script)
       (snd (listInboxConversations scripted demo_client ''inb_1'' no_filter (online demo_script))) =
     [\<lparr>url = ''https://api2.frontapp.com/inboxes/inb_1/conversations'', method_name = ''GET'',
       headers = [(''Authorization'', ''Bearer secret''),
                  (''Content-Type'', ''application/json''),
                  (''Accept'', ''application/json'')],
       body = None\<rparr>]"
    by code_simp
  moreover have "conversations_path ''inb_1'' no_filter = ''/inboxes/inb_1/conversations''"
    by code_simp
  ultimately show ?thesis by simp
qed

text \<open>
  Claim C7, amended. For every client constructed with an explicit token that is not the
  empty string: the construction succeeds; the base URL of the client is
  \<^verbatim>\<open>https://api2.frontapp.com\<close> when no override, or the empty string, is supplied, and the
  override when one that is not the empty string is supplied; a conversation list call issues exactly one request,
  whose URL is the base URL followed by the path; and every request issued by
  \<^verbatim>\<open>listInboxConversations\<close>, \<^verbatim>\<open>listConversationMessages\<close> and \<^verbatim>\<open>listInboxMessages\<close> carries
  the header \<^verbatim>\<open>Authorization: Bearer <token>\<close> and a URL that starts with the base URL.
\<close>

theorem new_FrontClient_requests:
  assumes "token_opt options = Some t" and "t \<noteq> []"
  shows "\<exists>c. new_FrontClient env options = Inr c
       \<and> token c = t
       \<and> (baseUrl_opt options = None \<or> baseUrl_opt options = Some [] \<longrightarrow>
            baseUrl c = ''https://api2.frontapp.com'')
       \<and> (\<forall>b. baseUrl_opt options = Some b \<and> b \<noteq> [] \<longrightarrow> baseUrl c = b)
       \<and> issued n (snd (listInboxConversations srv c inboxId params n)) =
           [conversations_request c inboxId params]
       \<and> url (conversations_request c inboxId params) =
           baseUrl c @ conversations_path inboxId params
       \<and> list_all (carries t (baseUrl c))
           (issued n (snd (listInboxConversations srv c inboxId params n)))
       \<and> list_all (carries t (baseUrl c))
           (issued n (snd (listConversationMessages srv c conversationId n)))
       \<and> list_all (carries t (baseUrl c))
           (issued n (snd (snd (listInboxMessages srv settled c inboxId ps n))))"
proof -
  define c where
    "c = \<lparr>token = t, baseUrl = or_else (baseUrl_opt options) ''https://api2.frontapp.com''\<rparr>"
  from assms have 1: "new_FrontClient env options = Inr c"
    by (simp add: new_FrontClient_def or_else_def c_def)
  have 2: "token c = t"
    by (simp add: c_def)
  have 3: "baseUrl_opt options = None \<or> baseUrl_opt options = Some [] \<longrightarrow>
      baseUrl c = ''https://api2.frontapp.com''"
    by (auto simp: or_else_def c_def)
  have 4: "\<forall>b. baseUrl_opt options = Some b \<and> b \<noteq> [] \<longrightarrow> baseUrl c = b"
    by (simp add: or_else_def c_def)
  have 5: "url (conversations_request c inboxId params) =
           baseUrl c @ conversations_path inboxId params"
    by (simp add: conversations_request_def build_request_def)
  note 6 = issued_listInboxConversations[of n srv c inboxId params]
  have 7: "list_all (carries t (baseUrl c))
           (issued n (snd (listInboxConversations srv c inboxId params n)))"
    using list_all_carries(1)[of c n srv inboxId params] by (simp only: 2)
  have 8: "list_all (carries t (baseUrl c))
           (issued n (snd (listConversationMessages srv c conversationId n)))"
    using list_all_carries(2)[of c n srv conversationId] by (simp only: 2)
  have 9: "list_all (carries t (baseUrl c))
           (issued n (snd (snd (listInboxMessages srv settled c inboxId ps n))))"
    using list_all_carries(3)[of c n srv settled inboxId ps] by (simp only: 2)
  show ?thesis
    by (rule exI[of _ c]) (intro conjI 1 2 3 4 5 6 7 8 9)
qed

theorem new_FrontClient_requests_witness:
  "new_FrontClient demo_env \<lparr>token_opt = Some ''secret'', baseUrl_opt = None\<rparr> = Inr demo_client
 \<and> list_all (carries ''secret'' ''https://api2.frontapp.com'')
      (issued (online demo_script)
         (snd (snd (listInboxMessages scripted (\<lambda>i. i) demo_client ''inb_1'' demo_params
                      (online demo_script)))))
 \<and> length (issued (online demo_script)
         (snd (snd (listInboxMessages scripted (\<lambda>i. i) demo_client ''inb_1'' demo_params
                      (online demo_script))))) = 4
 \<and> map url (issued (online demo_script)
         (snd (listInboxConversations scripted demo_client ''inb_1'' no_filter
                      (online demo_script)))) =
     [''https://api2.frontapp.com/inboxes/inb_1/conversations'']
 \<and> new_FrontClient demo_env \<lparr>token_opt = Some ''secret'', baseUrl_opt = Some ''http://localhost:8080''\<rparr> =
     Inr \<lparr>token = ''secret'', baseUrl = ''http://localhost:8080''\<rparr>
 \<and> map url (issued (online demo_script)
         (snd (listInboxConversations scripted
                 \<lparr>token = ''secret'', baseUrl = ''http://localhost:8080''\<rparr> ''inb_1'' no_filter
                 (online demo_script)))) =
     [''http://localhost:8080/inboxes/inb_1/conversations'']"
proof -
  let ?o1 = "\<lparr>token_opt = Some ''secret'', baseUrl_opt = None\<rparr>"
  let ?o2 = "\<lparr>token_opt = Some ''secret'', baseUrl_opt = Some ''http://localhost:8080''\<rparr>"
  let ?c2 = "\<lparr>token = ''secret'', baseUrl = ''http://localhost:8080''\<rparr>"
  have c1: "new_FrontClient demo_env ?o1 = Inr demo_client"
    by (simp add: new_FrontClient_def demo_env_def demo_client_def or_else_def)
  have c2: "new_FrontClient demo_env ?o2 = Inr ?c2"
    by (simp add: new_FrontClient_def demo_env_def or_else_def)
  have p: "conversations_path ''inb_1'' no_filter = ''/inboxes/inb_1/conversations''"
    by code_simp
  have b1: "baseUrl demo_client = ''https://api2.frontapp.com''"
    by (simp add: demo_client_def)
  from new_FrontClient_requests[where options = ?o1 and t = "''secret''" and env = demo_env
      and srv = scripted and n = "online demo_script" and inboxId = "''inb_1''"
      and params = no_filter and settled = "\<lambda>i. i" and ps = demo_params]
  obtain c where c: "new_FrontClient demo_env ?o1 = Inr c"
    "baseUrl c = ''https://api2.frontapp.com''"
    "issued (online demo_script)
       (snd (listInboxConversations scripted c ''inb_1'' no_filter (online demo_script))) =
     [conversations_request c ''inb_1'' no_filter]"
    "url (conversations_request c ''inb_1'' no_filter) =
       baseUrl c @ conversations_path ''inb_1'' no_filter"
    "list_all (carries ''secret'' (baseUrl c))
      (issued (online demo_script)
         (snd (snd (listInboxMessages scripted (\<lambda>i. i) c ''inb_1'' demo_params
                      (online demo_script)))))"
    by force
  from c(1) c1 have "c = demo_client" by simp
  with c p have 1: "list_all (carries ''secret'' ''https://api2.frontapp.com'')
      (issued (online demo_script)
         (snd (snd (listInboxMessages scripted (\<lambda>i. i) demo_client ''inb_1'' demo_params
                      (online demo_script)))))"
    and 2: "map url (issued (online demo_script)
         (snd (listInboxConversations scripted demo_client ''inb_1'' no_filter
                      (online demo_script)))) =
     [''https://api2.frontapp.com/inboxes/inb_1/conversations'']"
    by simp_all
  from new_FrontClient_requests[where options = ?o2 and t = "''secret''" and env = demo_env
      and srv = scripted and n = "online demo_script" and inboxId = "''inb_1''"
      and params = no_filter and settled = "\<lambda>i. i" and ps = demo_params]
  obtain c' where c': "new_FrontClient demo_env ?o2 = Inr c'"
    "issued (online demo_script)
       (snd (listInboxConversations scripted c' ''inb_1'' no_filter (online demo_script))) =
     [conversations_request c' ''inb_1'' no_filter]"
    "url (conversations_request c' ''inb_1'' no_filter) =
       baseUrl c' @ conversations_path ''inb_1'' no_filter"
    by force
  from c'(1) c2 have "c' = ?c2" by simp
  with c' p have 3: "map url (issued (online demo_script)
         (snd (listInboxConversations scripted ?c2 ''inb_1'' no_filter (online demo_script)))) =
     [''http://localhost:8080/inboxes/inb_1/conversations'']"
    by simp
  have 4: "length (issued (online demo_script)
         (snd (snd (listInboxMessages scripted (\<lambda>i. i) demo_client ''inb_1'' demo_params
                      (online demo_script))))) = 4"
    by code_simp
  from c1 c2 1 2 3 4 show ?thesis by blast
qed

text \<open>
  Claim C8, as stated, fails for a supplied token that is the empty string: with no token
  in the environment the construction fails (line 26 tests the token for truthiness).
\<close>

theorem new_FrontClient_empty_token_fails_counterexample:
  "token_opt \<lparr>token_opt = Some [], baseUrl_opt = None\<rparr> = Some []
 \<and> new_FrontClient \<lparr>FRONT_API_TOKEN = None, DEFAULT_INBOX_ID = None\<rparr>
       \<lparr>token_opt = Some [], baseUrl_opt = None\<rparr> =
     Inl (Error
       ''Front API token not provided and not found in environment variable: FRONT_API_TOKEN'')"
  by (simp add: new_FrontClient_def or_else_def)

text \<open>
  Claim C8, amended. Constructing a client when the token of the options is absent or
  empty and the token of the environment is absent or empty fails, in the constructor,
  which has no access to the network. With a supplied token that is not the empty string
  the construction succeeds and the client holds that token; no operation changes the
  client, and every request that \<^verbatim>\<open>listInboxMessages\<close> issues, from the first to the last,
  carries that token. When the token of the options is absent or empty, a token of the
  environment that is not empty is taken.
\<close>

theorem new_FrontClient_token:
  "((token_opt options = None \<or> token_opt options = Some []) \<and>
    (FRONT_API_TOKEN env = None \<or> FRONT_API_TOKEN env = Some []) \<longrightarrow>
      new_FrontClient env options =
        Inl (Error
          ''Front API token not provided and not found in environment variable: FRONT_API_TOKEN''))
 \<and> (token_opt options = Some t \<and> t \<noteq> [] \<longrightarrow>
      (\<exists>c. new_FrontClient env options = Inr c \<and> token c = t
         \<and> list_all (carries t (baseUrl c))
              (issued n (snd (snd (listInboxMessages srv settled c inboxId ps n))))))
 \<and> ((token_opt options = None \<or> token_opt options = Some []) \<and>
    FRONT_API_TOKEN env = Some t \<and> t \<noteq> [] \<longrightarrow>
      (\<exists>c. new_FrontClient env options = Inr c \<and> token c = t))"
proof (intro conjI impI)
  assume "(token_opt options = None \<or> token_opt options = Some []) \<and>
    (FRONT_API_TOKEN env = None \<or> FRONT_API_TOKEN env = Some [])"
  then show "new_FrontClient env options =
        Inl (Error
          ''Front API token not provided and not found in environment variable: FRONT_API_TOKEN'')"
    by (auto simp: new_FrontClient_def or_else_def)
next
  assume a: "token_opt options = Some t \<and> t \<noteq> []"
  define c where
    "c = \<lparr>token = t, baseUrl = or_else (baseUrl_opt options) ''https://api2.frontapp.com''\<rparr>"
  from a have 1: "new_FrontClient env options = Inr c"
    by (simp add: new_FrontClient_def or_else_def c_def)
  have 2: "token c = t"
    by (simp add: c_def)
  have 3: "list_all (carries t (baseUrl c))
      (issued n (snd (snd (listInboxMessages srv settled c inboxId ps n))))"
    using list_all_carries(3)[of c n srv settled inboxId ps] by (simp only: 2)
  show "\<exists>c. new_FrontClient env options = Inr c \<and> token c = t
         \<and> list_all (carries t (baseUrl c))
              (issued n (snd (snd (listInboxMessages srv settled c inboxId ps n))))"
    by (rule exI[of _ c]) (intro conjI 1 2 3)
next
  assume "(token_opt options = None \<or> token_opt options = Some []) \<and>
    FRONT_API_TOKEN env = Some t \<and> t \<noteq> []"
  then show "\<exists>c. new_FrontClient env options = Inr c \<and> token c = t"
    by (auto simp: new_FrontClient_def or_else_def)
qed

theorem new_FrontClient_token_witness:
  "new_FrontClient \<lparr>FRONT_API_TOKEN = None, DEFAULT_INBOX_ID = None\<rparr>
     \<lparr>token_opt = None, baseUrl_opt = None\<rparr> =
     Inl (Error
       ''Front API token not provided and not found in environment variable: FRONT_API_TOKEN'')
 \<and> (\<exists>c. new_FrontClient \<lparr>FRONT_API_TOKEN = None, DEFAULT_INBOX_ID = None\<rparr>
            \<lparr>token_opt = Some ''secret'', baseUrl_opt = None\<rparr> = Inr c \<and> token c = ''secret''
        \<and> list_all (carries ''secret'' (baseUrl c))
              (issued (online demo_script)
                 (snd (snd (listInboxMessages scripted (\<lambda>i. i) c ''inb_1'' demo_params
                              (online demo_script))))))
 \<and> (\<exists>c. new_FrontClient demo_env \<lparr>token_opt = None, baseUrl_opt = None\<rparr> = Inr c \<and>
         token c = ''secret'')"
proof -
  let ?none = "\<lparr>FRONT_API_TOKEN = None, DEFAULT_INBOX_ID = None\<rparr>"
  have 1: "new_FrontClient ?none \<lparr>token_opt = None, baseUrl_opt = None\<rparr> =
     Inl (Error
       ''Front API token not provided and not found in environment variable: FRONT_API_TOKEN'')"
    using new_FrontClient_token[where options = "\<lparr>token_opt = None, baseUrl_opt = None\<rparr>"
        and env = ?none, THEN conjunct1]
    by simp
  have 2: "\<exists>c. new_FrontClient ?none \<lparr>token_opt = Some ''secret'', baseUrl_opt = None\<rparr> = Inr c \<and>
        token c = ''secret''
        \<and> list_all (carries ''secret'' (baseUrl c))
              (issued (online demo_script)
                 (snd (snd (listInboxMessages scripted (\<lambda>i. i) c ''inb_1'' demo_params
                              (online demo_script)))))"
    using new_FrontClient_token[where options = "\<lparr>token_opt = Some ''secret'', baseUrl_opt = None\<rparr>"
        and env = ?none and t = "''secret''" and n = "online demo_script" and srv = scripted
        and settled = "\<lambda>i. i" and inboxId = "''inb_1''" and ps = demo_params,
        THEN conjunct2, THEN conjunct1]
    by simp
  have 3: "\<exists>c. new_FrontClient demo_env \<lparr>token_opt = None, baseUrl_opt = None\<rparr> = Inr c \<and>
         token c = ''secret''"
    using new_FrontClient_token[where options = "\<lparr>token_opt = None, baseUrl_opt = None\<rparr>"
        and env = demo_env and t = "''secret''", THEN conjunct2, THEN conjunct2]
    by (simp add: demo_env_def)
  from 1 2 3 show ?thesis by (intro conjI)
qed

text \<open>
  Claim C9. \<^verbatim>\<open>listInboxMessages\<close> changes the filter object of its caller: after the call,
  whether it returned a result or failed, the object is the one passed in with its status
  set to \<^verbatim>\<open>open\<close> when \<^verbatim>\<open>onlyUnresolved\<close> is true, and the one passed in otherwise; every
  property other than the status is as it was.
\<close>

theorem listInboxMessages_params_after:
  "fst (snd (listInboxMessages srv settled c inboxId params n)) =
     (if onlyUnresolved params = Some True then params\<lparr>status := Some Open\<rparr> else params)
 \<and> status (fst (snd (listInboxMessages srv settled c inboxId params n))) =
     (if onlyUnresolved params = Some True then Some Open else status params)
 \<and> q (fst (snd (listInboxMessages srv settled c inboxId params n))) = q params
 \<and> page_token (fst (snd (listInboxMessages srv settled c inboxId params n))) = page_token params
 \<and> limit (fst (snd (listInboxMessages srv settled c inboxId params n))) = limit params
 \<and> start (fst (snd (listInboxMessages srv settled c inboxId params n))) = start params
 \<and> end_param (fst (snd (listInboxMessages srv settled c inboxId params n))) = end_param params
 \<and> onlyUnresolved (fst (snd (listInboxMessages srv settled c inboxId params n))) =
     onlyUnresolved params"
proof -
  have "fst (snd (listInboxMessages srv settled c inboxId params n)) = set_open params"
    by (simp add: listInboxMessages_def Let_def split: prod.splits sum.splits)
  then show ?thesis by (simp add: set_open_def)
qed

text \<open>
  The filter of the example had the status \<^verbatim>\<open>spam\<close>; after the call it has the status
  \<^verbatim>\<open>open\<close>, also when the call fails; without \<^verbatim>\<open>onlyUnresolved\<close> it is unchanged.
\<close>

theorem listInboxMessages_params_after_witness:
  "status demo_params = Some Spam
 \<and> fst (snd (listInboxMessages scripted (\<lambda>i. i) demo_client ''inb_1'' demo_params
               (online demo_script))) = demo_params\<lparr>status := Some Open\<rparr>
 \<and> fst (snd (listInboxMessages scripted (\<lambda>i. i) demo_client ''inb_1'' demo_params
               (online failing_script))) = demo_params\<lparr>status := Some Open\<rparr>
 \<and> fst (snd (listInboxMessages scripted (\<lambda>i. i) demo_client ''inb_1''
               (demo_params\<lparr>onlyUnresolved := None\<rparr>) (online demo_script))) =
     demo_params\<lparr>onlyUnresolved := None\<rparr>"
  using listInboxMessages_params_after[of scripted "\<lambda>i. i" demo_client "''inb_1''" demo_params
          "online demo_script"]
        listInboxMessages_params_after[of scripted "\<lambda>i. i" demo_client "''inb_1''" demo_params
          "online failing_script"]
        listInboxMessages_params_after[of scripted "\<lambda>i. i" demo_client "''inb_1''"
          "demo_params\<lparr>onlyUnresolved := None\<rparr>" "online demo_script"]
  by (simp add: demo_params_def)

text \<open>
  Claim C10. In every call of \<^verbatim>\<open>listInboxConversations\<close>, a limit of 0 and an empty string
  for \<^verbatim>\<open>q\<close>, \<^verbatim>\<open>page_token\<close>, \<^verbatim>\<open>start\<close> or \<^verbatim>\<open>end\<close> add no query parameter: the query
  parameters composed, and so the request issued and the outcome of the call, are those of
  the same filter with the property absent, and the parameters \<^verbatim>\<open>limit\<close>, \<^verbatim>\<open>page_token\<close>,
  \<^verbatim>\<open>start\<close> and \<^verbatim>\<open>end\<close> do not occur among them. The value is not rejected either: the
  call proceeds as it does without the property.
\<close>

theorem listInboxConversations_falsy_fields:
  "queryParams (p\<lparr>limit := Some 0\<rparr>) = queryParams (p\<lparr>limit := None\<rparr>)
 \<and> queryParams (p\<lparr>q := Some []\<rparr>) = queryParams (p\<lparr>q := None\<rparr>)
 \<and> queryParams (p\<lparr>page_token := Some []\<rparr>) = queryParams (p\<lparr>page_token := None\<rparr>)
 \<and> queryParams (p\<lparr>start := Some []\<rparr>) = queryParams (p\<lparr>start := None\<rparr>)
 \<and> queryParams (p\<lparr>end_param := Some []\<rparr>) = queryParams (p\<lparr>end_param := None\<rparr>)
 \<and> listInboxConversations srv c inboxId (p\<lparr>limit := Some 0\<rparr>) n =
     listInboxConversations srv c inboxId (p\<lparr>limit := None\<rparr>) n
 \<and> listInboxConversations srv c inboxId (p\<lparr>q := Some []\<rparr>) n =
     listInboxConversations srv c inboxId (p\<lparr>q := None\<rparr>) n
 \<and> listInboxConversations srv c inboxId (p\<lparr>page_token := Some []\<rparr>) n =
     listInboxConversations srv c inboxId (p\<lparr>page_token := None\<rparr>) n
 \<and> listInboxConversations srv c inboxId (p\<lparr>start := Some []\<rparr>) n =
     listInboxConversations srv c inboxId (p\<lparr>start := None\<rparr>) n
 \<and> listInboxConversations srv c inboxId (p\<lparr>end_param := Some []\<rparr>) n =
     listInboxConversations srv c inboxId (p\<lparr>end_param := None\<rparr>) n
 \<and> getAll ''limit'' (queryParams (p\<lparr>limit := Some 0\<rparr>)) = []
 \<and> getAll ''page_token'' (queryParams (p\<lparr>page_token := Some []\<rparr>)) = []
 \<and> getAll ''start'' (queryParams (p\<lparr>start := Some []\<rparr>)) = []
 \<and> getAll ''end'' (queryParams (p\<lparr>end_param := Some []\<rparr>)) = []"
proof -
  have 1: "queryParams (p\<lparr>limit := Some 0\<rparr>) = queryParams (p\<lparr>limit := None\<rparr>)"
    by (simp add: queryParams_def Let_def append_if_number_falsy cong: option.case_cong)
  have 2: "queryParams (p\<lparr>q := Some []\<rparr>) = queryParams (p\<lparr>q := None\<rparr>)"
    by (simp add: queryParams_def Let_def append_if_falsy cong: option.case_cong)
  have 3: "queryParams (p\<lparr>page_token := Some []\<rparr>) = queryParams (p\<lparr>page_token := None\<rparr>)"
    by (simp add: queryParams_def Let_def append_if_falsy cong: option.case_cong)
  have 4: "queryParams (p\<lparr>start := Some []\<rparr>) = queryParams (p\<lparr>start := None\<rparr>)"
    by (simp add: queryParams_def Let_def append_if_falsy cong: option.case_cong)
  have 5: "queryParams (p\<lparr>end_param := Some []\<rparr>) = queryParams (p\<lparr>end_param := None\<rparr>)"
    by (simp add: queryParams_def Let_def append_if_falsy cong: option.case_cong)
  have 6: "getAll ''limit'' (queryParams (p\<lparr>limit := Some 0\<rparr>)) = []"
    by (simp add: queryParams_def Let_def getAll_simps truthy_def split: option.splits)
  have 7: "getAll ''page_token'' (queryParams (p\<lparr>page_token := Some []\<rparr>)) = []"
    by (simp add: queryParams_def Let_def getAll_simps truthy_def split: option.splits)
  have 8: "getAll ''start'' (queryParams (p\<lparr>start := Some []\<rparr>)) = []"
    by (simp add: queryParams_def Let_def getAll_simps truthy_def split: option.splits)
  have 9: "getAll ''end'' (queryParams (p\<lparr>end_param := Some []\<rparr>)) = []"
    by (simp add: queryParams_def Let_def getAll_simps truthy_def split: option.splits)
  have l: "listInboxConversations srv c inboxId (p\<lparr>limit := Some 0\<rparr>) n =
             listInboxConversations srv c inboxId (p\<lparr>limit := None\<rparr>) n"
          "listInboxConversations srv c inboxId (p\<lparr>q := Some []\<rparr>) n =
             listInboxConversations srv c inboxId (p\<lparr>q := None\<rparr>) n"
          "listInboxConversations srv c inboxId (p\<lparr>page_token := Some []\<rparr>) n =
             listInboxConversations srv c inboxId (p\<lparr>page_token := None\<rparr>) n"
          "listInboxConversations srv c inboxId (p\<lparr>start := Some []\<rparr>) n =
             listInboxConversations srv c inboxId (p\<lparr>start := None\<rparr>) n"
          "listInboxConversations srv c inboxId (p\<lparr>end_param := Some []\<rparr>) n =
             listInboxConversations srv c inboxId (p\<lparr>end_param := None\<rparr>) n"
    by (simp_all add: listInboxConversations_def conversations_path_def 1 2 3 4 5)
  from 1 2 3 4 5 l 6 7 8 9 show ?thesis by blast
qed

text \<open>
  With no other property in the filter, each of the five values leaves the query without
  parameters; the listing with limit 0 is requested at the path without a query string and
  proceeds.
\<close>

theorem listInboxConversations_falsy_fields_witness:
  "queryParams (no_filter\<lparr>limit := Some 0\<rparr>) = []
 \<and> queryParams (no_filter\<lparr>q := Some []\<rparr>) = []
 \<and> queryParams (no_filter\<lparr>page_token := Some []\<rparr>) = []
 \<and> queryParams (no_filter\<lparr>start := Some []\<rparr>) = []
 \<and> queryParams (no_filter\<lparr>end_param := Some []\<rparr>) = []
 \<and> map url (sent (snd (listInboxConversations scripted demo_client ''inb_1''
        (no_filter\<lparr>limit := Some 0\<rparr>) (online demo_script)))) =
     [''https://api2.frontapp.com/inboxes/inb_1/conversations'']
 \<and> fst (listInboxConversations scripted demo_client ''inb_1''
        (no_filter\<lparr>limit := Some 0\<rparr>) (online demo_script)) =
     Inr (page_of [item ''c1'', item ''c2'', item ''c3''])"
proof -
  have e: "queryParams (no_filter\<lparr>limit := None\<rparr>) = []"
    "queryParams (no_filter\<lparr>q := None\<rparr>) = []"
    "queryParams (no_filter\<lparr>page_token := None\<rparr>) = []"
    "queryParams (no_filter\<lparr>start := None\<rparr>) = []"
    "queryParams (no_filter\<lparr>end_param := None\<rparr>) = []"
    by (simp_all add: queryParams_def no_filter_def append_if_def append_if_number_def)
  have r: "map url (sent (snd (listInboxConversations scripted demo_client ''inb_1''
        (no_filter\<lparr>limit := None\<rparr>) (online demo_script)))) =
     [''https://api2.frontapp.com/inboxes/inb_1/conversations'']"
    "fst (listInboxConversations scripted demo_client ''inb_1''
        (no_filter\<lparr>limit := None\<rparr>) (online demo_script)) =
     Inr (page_of [item ''c1'', item ''c2'', item ''c3''])"
    by code_simp+
  from listInboxConversations_falsy_fields[of no_filter scripted demo_client "''inb_1''"
      "online demo_script"] e r
  show ?thesis by simp
qed

end
